theory Spec2Isabelle
  imports Complex_Main "HOL-Library.Word" "HOL-Library.Mapping" "HOL-Library.AList_Mapping"
    "HOL-Library.Monad_Syntax"
begin

unbundle bit_operations_syntax

section \<open>Shaping planner: selection of the complex shaper\<close>

text \<open>
  Embedding of \<^verbatim>\<open>hb_ot_shape_complex_categorize\<close>.  A \<^verbatim>\<open>language.Script\<close> is
  a 32-bit tag in the source; the \<^verbatim>\<open>switch\<close> compares it with named constants of the
  \<^verbatim>\<open>language\<close> package, which are pairwise different (they are the case labels of one
  \<^verbatim>\<open>switch\<close>).  The constants are the constructors below, in the order of the
  \<^verbatim>\<open>case\<close> lists, and \<open>OtherScript t\<close> is any script value that is none of them
  (Latin, Greek, ...).
\<close>

datatype (plugins only: size) Script =
    Arabic | Syriac
  | Thai | Lao
  | Hangul
  | Hebrew
  | Bengali | Devanagari | Gujarati | Gurmukhi | Kannada
  | Malayalam | Oriya | Tamil | Telugu | Sinhala
  | Khmer
  | Myanmar
  | scriptMyanmar_Zawgyi
  | Tibetan | Mongolian | Buhid | Hanunoo | Tagalog
  | Tagbanwa | Limbu | Tai_Le | Buginese | Kharoshthi
  | Syloti_Nagri | Tifinagh | Balinese | Nko | Phags_Pa
  | Cham | Kayah_Li | Lepcha | Rejang | Saurashtra
  | Sundanese | Egyptian_Hieroglyphs | Javanese | Kaithi
  | Meetei_Mayek | Tai_Tham | Tai_Viet | Batak
  | Brahmi | Mandaic | Chakma | Miao | Sharada
  | Takri | Duployan | Grantha | Khojki | Khudawadi
  | Mahajani | Manichaean | Modi | Pahawh_Hmong
  | Psalter_Pahlavi | Siddham | Tirhuta | Ahom | Multani
  | Adlam | Bhaiksuki | Marchen | Newa | Masaram_Gondi
  | Soyombo | Zanabazar_Square | Dogra | Gunjala_Gondi
  | Hanifi_Rohingya | Makasar | Medefaidrin | Old_Sogdian
  | Sogdian | Elymaic | Nandinagari | Nyiakeng_Puachue_Hmong
  | Wancho | Chorasmian | Dives_Akuru
  | OtherScript "32 word"

type_synonym hb_tag_t = "32 word"

text \<open>
  \<^verbatim>\<open>newTag\<close> of the \<^verbatim>\<open>opentype\<close> package packs four bytes, the first one in the most
  significant position (as \<^verbatim>\<open>binary.BigEndian.Uint32\<close> does in the \<^verbatim>\<open>truetype\<close>
  package's \<^verbatim>\<open>newTag\<close>).
\<close>

definition newTag :: "8 word \<Rightarrow> 8 word \<Rightarrow> 8 word \<Rightarrow> 8 word \<Rightarrow> hb_tag_t" where
  "newTag a b c d =
     push_bit 24 (ucast a) OR push_bit 16 (ucast b) OR push_bit 8 (ucast c) OR ucast d"

text \<open>
  Modelled from the spec: \<^verbatim>\<open>HB_OT_TAG_DEFAULT_SCRIPT\<close> is declared outside the files
  verified here; it is "the generic default tag", \<^verbatim>\<open>'DFLT'\<close>.
\<close>

definition HB_OT_TAG_DEFAULT_SCRIPT :: hb_tag_t where
  "HB_OT_TAG_DEFAULT_SCRIPT = newTag 0x44 0x46 0x4C 0x54"

text \<open>
  Modelled from the spec: the direction type and \<^verbatim>\<open>isHorizontal\<close> are declared outside
  the files verified here; a text direction is one of four, two of them horizontal.
\<close>

datatype Direction = LeftToRight | RightToLeft | TopToBottom | BottomToTop

fun isHorizontal :: "Direction \<Rightarrow> bool" where
  "isHorizontal LeftToRight = True"
| "isHorizontal RightToLeft = True"
| "isHorizontal TopToBottom = False"
| "isHorizontal BottomToTop = False"

text \<open>The fields of the planner that the dispatch reads.\<close>

record hb_ot_shape_planner_t =
  script :: Script
  direction :: Direction
  chosen_script :: "hb_tag_t \<times> hb_tag_t"

text \<open>The shaper variants that the dispatch can return.\<close>

datatype hb_ot_complex_shaper_t =
    complexShapedDefault
  | hb_ot_complex_shaper_arabic
  | hb_ot_complex_shaper_thai
  | hb_ot_complex_shaper_hangul
  | hb_ot_complex_shaper_hebrew
  | hb_ot_complex_shaper_indic
  | hb_ot_complex_shaper_use
  | hb_ot_complex_shaper_khmer
  | hb_ot_complex_shaper_myanmar
  | hb_ot_complex_shaper_myanmar_zawgyi

definition isIndicScript :: "Script \<Rightarrow> bool" where
  "isIndicScript s \<longleftrightarrow> s \<in> set [Bengali, Devanagari, Gujarati, Gurmukhi, Kannada,
     Malayalam, Oriya, Tamil, Telugu, Sinhala]"

definition isUseScript :: "Script \<Rightarrow> bool" where
  "isUseScript s \<longleftrightarrow> s \<in> set [Tibetan, Mongolian, Buhid, Hanunoo, Tagalog,
     Tagbanwa, Limbu, Tai_Le, Buginese, Kharoshthi,
     Syloti_Nagri, Tifinagh, Balinese, Nko, Phags_Pa,
     Cham, Kayah_Li, Lepcha, Rejang, Saurashtra,
     Sundanese, Egyptian_Hieroglyphs, Javanese, Kaithi,
     Meetei_Mayek, Tai_Tham, Tai_Viet, Batak,
     Brahmi, Mandaic, Chakma, Miao, Sharada,
     Takri, Duployan, Grantha, Khojki, Khudawadi,
     Mahajani, Manichaean, Modi, Pahawh_Hmong,
     Psalter_Pahlavi, Siddham, Tirhuta, Ahom, Multani,
     Adlam, Bhaiksuki, Marchen, Newa, Masaram_Gondi,
     Soyombo, Zanabazar_Square, Dogra, Gunjala_Gondi,
     Hanifi_Rohingya, Makasar, Medefaidrin, Old_Sogdian,
     Sogdian, Elymaic, Nandinagari, Nyiakeng_Puachue_Hmong,
     Wancho, Chorasmian, Dives_Akuru]"

definition hb_ot_shape_complex_categorize ::
  "hb_ot_shape_planner_t \<Rightarrow> hb_ot_complex_shaper_t" where
  "hb_ot_shape_complex_categorize planner =
    (let s = script planner; tag = fst (chosen_script planner) in
     if s = Arabic \<or> s = Syriac then
       (if (tag \<noteq> HB_OT_TAG_DEFAULT_SCRIPT \<or> s = Arabic) \<and> isHorizontal (direction planner)
        then hb_ot_complex_shaper_arabic
        else complexShapedDefault)
     else if s = Thai \<or> s = Lao then hb_ot_complex_shaper_thai
     else if s = Hangul then hb_ot_complex_shaper_hangul
     else if s = Hebrew then hb_ot_complex_shaper_hebrew
     else if isIndicScript s then
       (if tag = newTag 0x44 0x46 0x4C 0x54 \<or> tag = newTag 0x6C 0x61 0x74 0x6E
        then complexShapedDefault
        else if tag AND 0x000000FF = 0x33 then hb_ot_complex_shaper_use
        else hb_ot_complex_shaper_indic)
     else if s = Khmer then hb_ot_complex_shaper_khmer
     else if s = Myanmar then
       (if tag = newTag 0x44 0x46 0x4C 0x54 \<or> tag = newTag 0x6C 0x61 0x74 0x6E
           \<or> tag = newTag 0x6D 0x79 0x6D 0x72
        then complexShapedDefault
        else hb_ot_complex_shaper_myanmar)
     else if s = scriptMyanmar_Zawgyi then hb_ot_complex_shaper_myanmar_zawgyi
     else if isUseScript s then
       (if tag = newTag 0x44 0x46 0x4C 0x54 \<or> tag = newTag 0x6C 0x61 0x74 0x6E
        then complexShapedDefault
        else hb_ot_complex_shaper_use)
     else complexShapedDefault)"

section \<open>Font patterns\<close>

text \<open>
  Modelled from the spec: the declaration of \<^verbatim>\<open>Object\<close> is outside the files verified here;
  an object is "an enumerated identifier (small integer)", and \<^verbatim>\<open>Pattern.Hash\<close> writes
  it with \<^verbatim>\<open>PutUint16(buf[:], uint16(object))\<close>.
\<close>

type_synonym Object = "16 word"

text \<open>
  \<^verbatim>\<open>float64\<close> values, with the arithmetic of IEEE 754 binary64 in its default rounding
  mode (round to nearest, ties to even), which is the arithmetic of Go on \<^verbatim>\<open>float64\<close>.
  A finite value carries its exact rational value; \<open>Finite 0\<close> is the positive zero and
  \<open>NegZero\<close> the negative one; all the values that are not a number are one value,
  \<open>NaN\<close>.
\<close>

datatype float64 = Finite rat | NegZero | PosInf | NegInf | NaN

text \<open>
  Rounding of a rational number other than 0 to the nearest \<^verbatim>\<open>float64\<close>.  A value has
  53 significant bits: for \<open>2 ^ e \<le> \<bar>r\<bar> < 2 ^ (e + 1)\<close> it is a multiple of
  \<open>2 ^ (e - 52)\<close>.  The exponent is at least \<open>- 1022\<close>, so that the values below
  \<open>2 ^ (- 1022)\<close> are the multiples of \<open>2 ^ (- 1074)\<close>, and a result of \<open>2 ^ 1024\<close> or
  more is an infinity.  \<open>floorlog2 n\<close> is the position of the highest bit of \<open>n\<close>,
  \<open>pow2 k\<close> is \<open>2 ^ k\<close> for an integer \<open>k\<close>, and \<open>exponent a\<close> is the \<open>e\<close> above.
\<close>

function floorlog2 :: "int \<Rightarrow> int" where
  "floorlog2 n = (if n < 2 then 0 else 1 + floorlog2 (n div 2))"
  by pat_completeness auto
termination
  by (relation "measure nat") auto

declare floorlog2.simps [simp del]

definition pow2 :: "int \<Rightarrow> rat" where
  "pow2 k = (if 0 \<le> k then 2 ^ nat k else 1 / 2 ^ nat (- k))"

definition exponent :: "rat \<Rightarrow> int" where
  "exponent a = (case quotient_of a of (p, q) \<Rightarrow>
     (let k = floorlog2 p - floorlog2 q
      in if a < pow2 k then k - 1 else k))"

definition roundHalfEven :: "rat \<Rightarrow> int" where
  "roundHalfEven x = (let f = \<lfloor>x\<rfloor>; d = x - of_int f
     in if d < 1 / 2 then f else if 1 / 2 < d then f + 1 else if even f then f else f + 1)"

definition signedZero :: "bool \<Rightarrow> float64" where
  "signedZero neg = (if neg then NegZero else Finite 0)"

definition signedInf :: "bool \<Rightarrow> float64" where
  "signedInf neg = (if neg then NegInf else PosInf)"

definition round64 :: "rat \<Rightarrow> float64" where
  "round64 r = (let neg = (r < 0); a = \<bar>r\<bar>;
       quantum = pow2 (max (exponent a) (- 1022) - 52);
       n = roundHalfEven (a / quantum);
       v = of_int n * quantum
     in if pow2 1024 \<le> v then signedInf neg
        else if n = 0 then signedZero neg
        else Finite (if neg then - v else v))"

fun signbit :: "float64 \<Rightarrow> bool" where
  "signbit (Finite r) = (r < 0)"
| "signbit NegZero = True"
| "signbit PosInf = False"
| "signbit NegInf = True"
| "signbit NaN = False"

fun isInf :: "float64 \<Rightarrow> bool" where
  "isInf PosInf = True"
| "isInf NegInf = True"
| "isInf _ = False"

fun isZero :: "float64 \<Rightarrow> bool" where
  "isZero (Finite r) = (r = 0)"
| "isZero NegZero = True"
| "isZero _ = False"

fun ratOf :: "float64 \<Rightarrow> rat" where
  "ratOf (Finite r) = r"
| "ratOf _ = 0"

text \<open>
  The operations \<^verbatim>\<open>+\<close>, \<^verbatim>\<open>*\<close> and \<^verbatim>\<open>/\<close> of Go on \<^verbatim>\<open>float64\<close>: the exact result,
  rounded; an exact result 0 has the sign that IEEE 754 gives it (for a sum of two
  values other than zeros the positive one), and the operations on zeros, infinities
  and \<open>NaN\<close> are those of IEEE 754: \<open>0 / 0\<close>, \<open>\<infinity> / \<infinity>\<close>, \<open>0 * \<infinity>\<close> and \<open>\<infinity> - \<infinity>\<close> are
  \<open>NaN\<close>, and a finite value other than 0 divided by a zero is an infinity.
\<close>

definition f64_add :: "float64 \<Rightarrow> float64 \<Rightarrow> float64" where
  "f64_add x y =
     (if x = NaN \<or> y = NaN then NaN
      else if isInf x then (if isInf y \<and> x \<noteq> y then NaN else x)
      else if isInf y then y
      else if isZero x \<and> isZero y then signedZero (signbit x \<and> signbit y)
      else if ratOf x + ratOf y = 0 then Finite 0
      else round64 (ratOf x + ratOf y))"

definition f64_mul :: "float64 \<Rightarrow> float64 \<Rightarrow> float64" where
  "f64_mul x y = (let neg = (signbit x \<noteq> signbit y)
     in if x = NaN \<or> y = NaN then NaN
        else if isInf x \<or> isInf y then (if isZero x \<or> isZero y then NaN else signedInf neg)
        else if isZero x \<or> isZero y then signedZero neg
        else round64 (ratOf x * ratOf y))"

definition f64_div :: "float64 \<Rightarrow> float64 \<Rightarrow> float64" where
  "f64_div x y = (let neg = (signbit x \<noteq> signbit y)
     in if x = NaN \<or> y = NaN then NaN
        else if isInf x then (if isInf y then NaN else signedInf neg)
        else if isInf y then signedZero neg
        else if isZero y then (if isZero x then NaN else signedInf neg)
        else if isZero x then signedZero neg
        else round64 (ratOf x / ratOf y))"

text \<open>
  \<^verbatim>\<open>Value\<close> is a Go interface: \<open>NilValue\<close> is the nil interface value (what
  \<^verbatim>\<open>GetAt\<close> returns when nothing is found), the other constructors are the dynamic
  types of the spec's tagged union.  The payload types of \<^verbatim>\<open>Bool\<close> (an integer type
  in the source, see \<^verbatim>\<open>AddBool\<close>), \<^verbatim>\<open>Matrix\<close>, \<^verbatim>\<open>Charset\<close> and \<^verbatim>\<open>Langset\<close>
  are declared outside the files verified here.
\<close>

datatype Value =
    NilValue
  | Bool nat
  | IntVal int
  | Float float64
  | String string
  | Matrix float64 float64 float64 float64
  | Charset "nat list"
  | Range float64 float64
  | Langset "string list"

datatype ValueBinding = ValueBindingWeak | ValueBindingStrong

record valueElt =
  Value :: Value
  Binding :: ValueBinding

type_synonym valueList = "valueElt list"

text \<open>
  \<^verbatim>\<open>type Pattern map[Object]*valueList\<close>.  Every function below reads the map with
  \<^verbatim>\<open>p[object]\<close> and tests the pointer against nil, which does not tell an absent key
  from a key bound to a nil pointer: both are the absent key of the mapping.  No two keys
  share a list (\<^verbatim>\<open>AddList\<close> stores copies, \<^verbatim>\<open>list.duplicate()\<close>), so the lists are
  held by value.  A hash map has no order; \<^verbatim>\<open>sortedKeys\<close> is the only iteration.
  The admissibility table \<^verbatim>\<open>Object.hasValidType\<close> is declared outside the files verified here
  and is a parameter of every function that reaches it.
\<close>

type_synonym Pattern = "(Object, valueList) mapping"

definition NewPattern :: Pattern where
  "NewPattern = Mapping.empty"

definition Duplicate :: "Pattern \<Rightarrow> Pattern" where
  "Duplicate p = p"

text \<open>
  Modelled from the spec: \<^verbatim>\<open>valueList.prepend\<close> is outside the files verified here; it is the
  "prepend mode" of insertion, the new values come first.
\<close>

definition prepend :: "valueList \<Rightarrow> valueList \<Rightarrow> valueList" where
  "prepend e v = v @ e"

text \<open>
  \<^verbatim>\<open>AddList\<close> returns at the first value of the list that the object does not accept,
  after writing one line to the log; \<open>AddList_logged\<close> is that line (the object and the
  value printed), \<open>AddList\<close> is the pattern afterwards.
\<close>

definition AddList_logged ::
  "(Object \<Rightarrow> Value \<Rightarrow> bool) \<Rightarrow> Object \<Rightarrow> valueList \<Rightarrow> (Object \<times> Value) option" where
  "AddList_logged hasValidType object list =
     map_option (\<lambda>value. (object, Value value))
       (find (\<lambda>value. \<not> hasValidType object (Value value)) list)"

definition AddList ::
  "(Object \<Rightarrow> Value \<Rightarrow> bool) \<Rightarrow> Pattern \<Rightarrow> Object \<Rightarrow> valueList \<Rightarrow> bool \<Rightarrow> Pattern" where
  "AddList hasValidType p object list appendMode =
     (case find (\<lambda>value. \<not> hasValidType object (Value value)) list of
        Some value \<Rightarrow> p
      | None \<Rightarrow>
         (let e = (case Mapping.lookup p object of None \<Rightarrow> [] | Some e \<Rightarrow> e) in
          if appendMode then Mapping.update object (e @ list) p
          else Mapping.update object (prepend e list) p))"

definition addWithBinding ::
  "(Object \<Rightarrow> Value \<Rightarrow> bool) \<Rightarrow> Pattern \<Rightarrow> Object \<Rightarrow> Value \<Rightarrow> ValueBinding \<Rightarrow> bool \<Rightarrow> Pattern" where
  "addWithBinding hasValidType p object value binding appendMode =
     (let newV = \<lparr>Value = value, Binding = binding\<rparr> in
      AddList hasValidType p object [newV] appendMode)"

definition Add ::
  "(Object \<Rightarrow> Value \<Rightarrow> bool) \<Rightarrow> Pattern \<Rightarrow> Object \<Rightarrow> Value \<Rightarrow> bool \<Rightarrow> Pattern" where
  "Add hasValidType p object value appendMode =
     addWithBinding hasValidType p object value ValueBindingStrong appendMode"

definition AddBool :: "(Object \<Rightarrow> Value \<Rightarrow> bool) \<Rightarrow> Pattern \<Rightarrow> Object \<Rightarrow> bool \<Rightarrow> Pattern" where
  "AddBool hasValidType p object value =
     (let fBool = (if value then 1 else 0) in Add hasValidType p object (Bool fBool) True)"

definition AddInteger :: "(Object \<Rightarrow> Value \<Rightarrow> bool) \<Rightarrow> Pattern \<Rightarrow> Object \<Rightarrow> int \<Rightarrow> Pattern" where
  "AddInteger hasValidType p object value = Add hasValidType p object (IntVal value) True"

definition AddFloat :: "(Object \<Rightarrow> Value \<Rightarrow> bool) \<Rightarrow> Pattern \<Rightarrow> Object \<Rightarrow> float64 \<Rightarrow> Pattern" where
  "AddFloat hasValidType p object value = Add hasValidType p object (Float value) True"

definition AddString :: "(Object \<Rightarrow> Value \<Rightarrow> bool) \<Rightarrow> Pattern \<Rightarrow> Object \<Rightarrow> string \<Rightarrow> Pattern" where
  "AddString hasValidType p object value = Add hasValidType p object (String value) True"

definition Del :: "Pattern \<Rightarrow> Object \<Rightarrow> Pattern" where
  "Del p object = Mapping.delete object p"

text \<open>
  \<^verbatim>\<open>Pattern.Hash\<close>.  \<^verbatim>\<open>valueList.Hash\<close> is outside the files verified here and is the
  parameter \<open>valueList_Hash\<close>; \<^verbatim>\<open>uint32(len(tmp))\<close> keeps the length modulo \<open>2 ^ 32\<close>.
\<close>

definition sortedKeys :: "Pattern \<Rightarrow> Object list" where
  "sortedKeys p = Mapping.ordered_keys p"

definition PutUint16 :: "16 word \<Rightarrow> 8 word list" where
  "PutUint16 v = [ucast (drop_bit 8 v), ucast v]"

definition PutUint32 :: "32 word \<Rightarrow> 8 word list" where
  "PutUint32 v = [ucast (drop_bit 24 v), ucast (drop_bit 16 v), ucast (drop_bit 8 v), ucast v]"

definition Hash :: "(valueList \<Rightarrow> 8 word list) \<Rightarrow> Pattern \<Rightarrow> 8 word list" where
  "Hash valueList_Hash p =
     concat (map (\<lambda>object.
        (case Mapping.lookup p object of
           None \<Rightarrow> []
         | Some v \<Rightarrow>
            if length v = 0 then []
            else (let tmp = valueList_Hash v in
                  PutUint16 object @ PutUint32 (word_of_nat (length tmp)) @ tmp)))
       (sortedKeys p))"

definition getVals :: "Pattern \<Rightarrow> Object \<Rightarrow> valueList" where
  "getVals p obj = (case Mapping.lookup p obj of None \<Rightarrow> [] | Some out \<Rightarrow> out)"

text \<open>
  Lookups.  \<^verbatim>\<open>Result\<close> is declared outside the files verified here; these are the four
  results that the functions below return.  An index expression with a negative index
  panics in Go: \<open>None\<close> is the panic.
\<close>

datatype Result = ResultMatch | ResultNoMatch | ResultTypeMismatch | ResultNoId

definition GetAt :: "Pattern \<Rightarrow> Object \<Rightarrow> int \<Rightarrow> (Value \<times> Result) option" where
  "GetAt p object id' =
     (case Mapping.lookup p object of
        None \<Rightarrow> Some (NilValue, ResultNoMatch)
      | Some e \<Rightarrow>
          if id' \<ge> int (length e) then Some (NilValue, ResultNoId)
          else if id' < 0 then None
          else Some (Value (e ! nat id'), ResultMatch))"

definition GetBool :: "Pattern \<Rightarrow> Object \<Rightarrow> (nat \<times> bool) option" where
  "GetBool p object = do {
     (v, r) \<leftarrow> GetAt p object 0;
     if r \<noteq> ResultMatch then Some (0, False)
     else Some (case v of Bool out \<Rightarrow> (out, True) | _ \<Rightarrow> (0, False))
   }"

definition GetString :: "Pattern \<Rightarrow> Object \<Rightarrow> (string \<times> bool) option" where
  "GetString p object = do {
     (v, r) \<leftarrow> GetAt p object 0;
     if r \<noteq> ResultMatch then Some ('''', False)
     else Some (case v of String out \<Rightarrow> (out, True) | _ \<Rightarrow> ('''', False))
   }"

definition GetAtString :: "Pattern \<Rightarrow> Object \<Rightarrow> int \<Rightarrow> (string \<times> Result) option" where
  "GetAtString p object id' = do {
     (v, r) \<leftarrow> GetAt p object id';
     if r \<noteq> ResultMatch then Some ('''', r)
     else Some (case v of String out \<Rightarrow> (out, ResultMatch) | _ \<Rightarrow> ('''', ResultTypeMismatch))
   }"

definition GetCharset :: "Pattern \<Rightarrow> Object \<Rightarrow> (nat list \<times> bool) option" where
  "GetCharset p object = do {
     (v, r) \<leftarrow> GetAt p object 0;
     if r \<noteq> ResultMatch then Some ([], False)
     else Some (case v of Charset out \<Rightarrow> (out, True) | _ \<Rightarrow> ([], False))
   }"

definition GetFloat :: "Pattern \<Rightarrow> Object \<Rightarrow> (float64 \<times> bool) option" where
  "GetFloat p object = do {
     (v, r) \<leftarrow> GetAt p object 0;
     if r \<noteq> ResultMatch then Some (Finite 0, False)
     else Some (case v of Float out \<Rightarrow> (out, True) | _ \<Rightarrow> (Finite 0, False))
   }"

definition GetInt :: "Pattern \<Rightarrow> Object \<Rightarrow> (int \<times> bool) option" where
  "GetInt p object = do {
     (v, r) \<leftarrow> GetAt p object 0;
     if r \<noteq> ResultMatch then Some (0, False)
     else Some (case v of IntVal out \<Rightarrow> (out, True) | _ \<Rightarrow> (0, False))
   }"

definition GetMatrix ::
  "Pattern \<Rightarrow> Object \<Rightarrow> ((float64 \<times> float64 \<times> float64 \<times> float64) \<times> bool) option" where
  "GetMatrix p object = do {
     (v, r) \<leftarrow> GetAt p object 0;
     if r \<noteq> ResultMatch then Some ((Finite 0, Finite 0, Finite 0, Finite 0), False)
     else Some (case v of Matrix xx xy yx yy \<Rightarrow> ((xx, xy, yx, yy), True)
                | _ \<Rightarrow> ((Finite 0, Finite 0, Finite 0, Finite 0), False))
   }"

text \<open>
  \<^verbatim>\<open>Pattern.append\<close> ranges over the map \<open>s\<close>; each object only touches its own list of
  \<open>p\<close>, so the order of the iteration does not show in the result, and the keys are
  visited in increasing order here.
\<close>

definition append_Pattern :: "(Object \<Rightarrow> Value \<Rightarrow> bool) \<Rightarrow> Pattern \<Rightarrow> Pattern \<Rightarrow> Pattern" where
  "append_Pattern hasValidType p s =
     fold (\<lambda>object p.
        fold (\<lambda>v p. addWithBinding hasValidType p object (Value v) (Binding v) True)
          (getVals s object) p)
       (sortedKeys s) p"

text \<open>A \<^verbatim>\<open>PatternElement\<close> is the pair of its two fields, \<^verbatim>\<open>Object\<close> and \<^verbatim>\<open>Value\<close>.\<close>

definition BuildPattern :: "(Object \<Rightarrow> Value \<Rightarrow> bool) \<Rightarrow> (Object \<times> Value) list \<Rightarrow> Pattern" where
  "BuildPattern hasValidType elements =
     fold (\<lambda>el p. Add hasValidType p (fst el) (snd el) True) elements NewPattern"

text \<open>
  Modelled from the spec: \<^verbatim>\<open>valueList.insert\<close>, which \<^verbatim>\<open>addWithTable\<close> calls, is outside
  the files verified here.  The spec has values of inadmissible kinds "rejected (logged,
  dropped) at insertion time", "at every mutation entry point", and insertion "in append
  or prepend mode".  \<^verbatim>\<open>addWithTable\<close> always passes the position \<open>-1\<close> (the end of the
  list in append mode, its head otherwise); the family table is bookkeeping outside the
  pattern.
\<close>

definition valueList_insert ::
  "(Object \<Rightarrow> Value \<Rightarrow> bool) \<Rightarrow> valueList \<Rightarrow> bool \<Rightarrow> valueList \<Rightarrow> Object \<Rightarrow> valueList" where
  "valueList_insert hasValidType head appendMode new object =
     (case find (\<lambda>value. \<not> hasValidType object (Value value)) new of
        Some value \<Rightarrow> head
      | None \<Rightarrow> if appendMode then head @ new else new @ head)"

definition addWithTable ::
  "(Object \<Rightarrow> Value \<Rightarrow> bool) \<Rightarrow> Pattern \<Rightarrow> Object \<Rightarrow> valueList \<Rightarrow> bool \<Rightarrow> Pattern" where
  "addWithTable hasValidType p object list append' =
     (let e = (case Mapping.lookup p object of None \<Rightarrow> [] | Some e \<Rightarrow> e) in
      Mapping.update object (valueList_insert hasValidType e append' list object) p)"

definition canon :: "Pattern \<Rightarrow> Object \<Rightarrow> Pattern" where
  "canon p object =
     (case Mapping.lookup p object of
        None \<Rightarrow> Mapping.delete object p
      | Some e \<Rightarrow> if length e = 0 then Mapping.delete object p else p)"

text \<open>
  The invariant of the data model: every value stored under an object is admissible for
  that object.
\<close>

definition validPattern :: "(Object \<Rightarrow> Value \<Rightarrow> bool) \<Rightarrow> Pattern \<Rightarrow> bool" where
  "validPattern hasValidType p =
     list_all (\<lambda>object. list_all (\<lambda>e. hasValidType object (Value e)) (getVals p object))
       (sortedKeys p)"

subsection \<open>Default substitution\<close>

text \<open>
  The object identifiers, the integer constants \<^verbatim>\<open>WEIGHT_NORMAL\<close>, \<^verbatim>\<open>SLANT_ROMAN\<close>,
  \<^verbatim>\<open>WIDTH_NORMAL\<close> and \<^verbatim>\<open>HINT_FULL\<close>, and the functions \<^verbatim>\<open>getDefaultLang\<close> and
  \<^verbatim>\<open>getProgramName\<close> (the process locale and program name) are declared outside the
  files verified here: they are the fields of the parameter \<open>K\<close>.
\<close>

record fc_decls =
  WEIGHT :: Object
  SLANT :: Object
  WIDTH :: Object
  HINTING :: Object
  VERTICAL_LAYOUT :: Object
  AUTOHINT :: Object
  GLOBAL_ADVANCE :: Object
  EMBEDDED_BITMAP :: Object
  DECORATIVE :: Object
  SYMBOL :: Object
  VARIABLE :: Object
  SIZE :: Object
  SCALE :: Object
  DPI :: Object
  PIXEL_SIZE :: Object
  FONTVERSION :: Object
  HINT_STYLE :: Object
  NAMELANG :: Object
  FAMILYLANG :: Object
  STYLELANG :: Object
  FULLNAMELANG :: Object
  PRGNAME :: Object
  ORDER :: Object
  WEIGHT_NORMAL :: int
  SLANT_ROMAN :: int
  WIDTH_NORMAL :: int
  HINT_FULL :: int
  getDefaultLang :: string
  getProgramName :: string

definition boolDefaults :: "fc_decls \<Rightarrow> (Object \<times> bool) list" where
  "boolDefaults K =
     [(HINTING K, True), (VERTICAL_LAYOUT K, False), (AUTOHINT K, False),
      (GLOBAL_ADVANCE K, True), (EMBEDDED_BITMAP K, True), (DECORATIVE K, False),
      (SYMBOL K, False), (VARIABLE K, False)]"

text \<open>
  \<^verbatim>\<open>SubstituteDefault\<close> repeats the statement
  \<^verbatim>\<open>if pattern[o] == nil { pattern.AddInteger(o, v) }\<close>, with \<^verbatim>\<open>AddBool\<close> in the loop over
  \<^verbatim>\<open>boolDefaults\<close> and \<^verbatim>\<open>AddString\<close> for the name language, and three times the
  statement that adds the name language and the weak \<^verbatim>\<open>"en-us"\<close> to a language object.
  Each of them is a definition here, and the function is their sequence.
\<close>

definition defaultInteger ::
  "(Object \<Rightarrow> Value \<Rightarrow> bool) \<Rightarrow> Object \<Rightarrow> int \<Rightarrow> Pattern \<Rightarrow> Pattern" where
  "defaultInteger hasValidType object v pattern =
     (if Mapping.lookup pattern object = None
      then AddInteger hasValidType pattern object v else pattern)"

definition defaultBool ::
  "(Object \<Rightarrow> Value \<Rightarrow> bool) \<Rightarrow> Object \<times> bool \<Rightarrow> Pattern \<Rightarrow> Pattern" where
  "defaultBool hasValidType boolDef pattern =
     (if Mapping.lookup pattern (fst boolDef) = None
      then AddBool hasValidType pattern (fst boolDef) (snd boolDef) else pattern)"

definition defaultString ::
  "(Object \<Rightarrow> Value \<Rightarrow> bool) \<Rightarrow> Object \<Rightarrow> string \<Rightarrow> Pattern \<Rightarrow> Pattern" where
  "defaultString hasValidType object v pattern =
     (if Mapping.lookup pattern object = None
      then AddString hasValidType pattern object v else pattern)"

definition defaultLang ::
  "(Object \<Rightarrow> Value \<Rightarrow> bool) \<Rightarrow> Object \<Rightarrow> Value \<Rightarrow> Value \<Rightarrow> Pattern \<Rightarrow> Pattern" where
  "defaultLang hasValidType object namelang lang pattern =
     (if Mapping.lookup pattern object = None then
        (let pattern = Add hasValidType pattern object namelang True
         in addWithBinding hasValidType pattern object lang ValueBindingWeak True)
      else pattern)"

definition defaultPrgname ::
  "(Object \<Rightarrow> Value \<Rightarrow> bool) \<Rightarrow> Object \<Rightarrow> string \<Rightarrow> Pattern \<Rightarrow> Pattern" where
  "defaultPrgname hasValidType object prgname pattern =
     (if Mapping.lookup pattern object = None then
        (if prgname \<noteq> '''' then AddString hasValidType pattern object prgname else pattern)
      else pattern)"

definition SubstituteDefault ::
  "fc_decls \<Rightarrow> (Object \<Rightarrow> Value \<Rightarrow> bool) \<Rightarrow> Pattern \<Rightarrow> Pattern option" where
  "SubstituteDefault K hasValidType pattern = do {
     let pattern = defaultInteger hasValidType (WEIGHT K) (WEIGHT_NORMAL K) pattern;
     let pattern = defaultInteger hasValidType (SLANT K) (SLANT_ROMAN K) pattern;
     let pattern = defaultInteger hasValidType (WIDTH K) (WIDTH_NORMAL K) pattern;
     let pattern = fold (defaultBool hasValidType) (boolDefaults K) pattern;
     (sizeObj, _) \<leftarrow> GetAt pattern (SIZE K) 0;
     let size = (case sizeObj of
                   Float sizeObj \<Rightarrow> sizeObj
                 | Range Begin End \<Rightarrow> f64_mul (f64_add Begin End) (Finite (1 / 2))
                 | _ \<Rightarrow> Finite 12);
     (scale, ok) \<leftarrow> GetFloat pattern (SCALE K);
     let scale = (if \<not> ok then Finite 1 else scale);
     (dpi, ok) \<leftarrow> GetFloat pattern (DPI K);
     let dpi = (if \<not> ok then Finite 75 else dpi);
     let pixelSize = getVals pattern (PIXEL_SIZE K);
     let (pattern, size) =
       (if length pixelSize = 0 then
          (let pattern = Del pattern (SCALE K);
               pattern = AddFloat hasValidType pattern (SCALE K) scale;
               pixelsize = f64_mul size scale;
               pattern = Del pattern (DPI K);
               pattern = AddFloat hasValidType pattern (DPI K) dpi;
               pixelsize = f64_mul pixelsize (f64_div dpi (Finite 72));
               pattern = AddFloat hasValidType pattern (PIXEL_SIZE K) pixelsize
           in (pattern, size))
        else
          (let sizeF = (case Value (pixelSize ! 0) of Float sizeF \<Rightarrow> sizeF | _ \<Rightarrow> Finite 0)
           in (pattern, f64_div (f64_mul (f64_div sizeF dpi) (Finite 72)) scale)));
     let pattern = Del pattern (SIZE K);
     let pattern = AddFloat hasValidType pattern (SIZE K) size;
     let pattern = defaultInteger hasValidType (FONTVERSION K) 0x7fffffff pattern;
     let pattern = defaultInteger hasValidType (HINT_STYLE K) (HINT_FULL K) pattern;
     let pattern = defaultString hasValidType (NAMELANG K) (getDefaultLang K) pattern;
     (namelang, _) \<leftarrow> GetAt pattern (NAMELANG K) 0;
     let lang = String ''en-us'';
     let pattern = defaultLang hasValidType (FAMILYLANG K) namelang lang pattern;
     let pattern = defaultLang hasValidType (STYLELANG K) namelang lang pattern;
     let pattern = defaultLang hasValidType (FULLNAMELANG K) namelang lang pattern;
     let pattern = defaultPrgname hasValidType (PRGNAME K) (getProgramName K) pattern;
     let pattern = defaultInteger hasValidType (ORDER K) 0 pattern;
     Some pattern
   }"

text \<open>The object identifiers named in \<^verbatim>\<open>SubstituteDefault\<close> are pairwise different.\<close>

definition distinctObjects :: "fc_decls \<Rightarrow> bool" where
  "distinctObjects K =
     distinct [WEIGHT K, SLANT K, WIDTH K, HINTING K, VERTICAL_LAYOUT K, AUTOHINT K,
       GLOBAL_ADVANCE K, EMBEDDED_BITMAP K, DECORATIVE K, SYMBOL K, VARIABLE K, SIZE K,
       SCALE K, DPI K, PIXEL_SIZE K, FONTVERSION K, HINT_STYLE K, NAMELANG K, FAMILYLANG K,
       STYLELANG K, FULLNAMELANG K, PRGNAME K, ORDER K]"

text \<open>
  What \<^verbatim>\<open>SubstituteDefault\<close> reads from the pattern for the sizes: the requested point
  size (12 unless the first size is a float, or a range, whose midpoint is taken), and
  the first value of an object when it is a float, a default otherwise (1 for the scale,
  75 for the resolution, 0 for the pixel size).
\<close>

definition requestedSize :: "fc_decls \<Rightarrow> Pattern \<Rightarrow> float64" where
  "requestedSize K p =
     (case getVals p (SIZE K) of
        [] \<Rightarrow> Finite 12
      | x # _ \<Rightarrow> (case Value x of
                    Float f \<Rightarrow> f
                  | Range Begin End \<Rightarrow> f64_mul (f64_add Begin End) (Finite (1 / 2))
                  | _ \<Rightarrow> Finite 12))"

definition firstFloat :: "Pattern \<Rightarrow> Object \<Rightarrow> float64 \<Rightarrow> float64" where
  "firstFloat p object d =
     (case getVals p object of
        [] \<Rightarrow> d
      | x # _ \<Rightarrow> (case Value x of Float f \<Rightarrow> f | _ \<Rightarrow> d))"

text \<open>
  The declarations for the concrete examples, with the numbering of fontconfig's list of
  objects and its constants, the locale \<open>en\<close> and no program name; and an admissibility
  table that accepts every value.
\<close>

definition exampleDecls :: fc_decls where
  "exampleDecls =
     \<lparr>WEIGHT = 8, SLANT = 7, WIDTH = 9, HINTING = 17, VERTICAL_LAYOUT = 18, AUTOHINT = 19,
      GLOBAL_ADVANCE = 20, EMBEDDED_BITMAP = 39, DECORATIVE = 40, SYMBOL = 48, VARIABLE = 50,
      SIZE = 10, SCALE = 28, DPI = 26, PIXEL_SIZE = 12, FONTVERSION = 35, HINT_STYLE = 16,
      NAMELANG = 42, FAMILYLANG = 2, STYLELANG = 4, FULLNAMELANG = 6, PRGNAME = 44,
      ORDER = 52, WEIGHT_NORMAL = 80, SLANT_ROMAN = 0, WIDTH_NORMAL = 100, HINT_FULL = 3,
      getDefaultLang = ''en'', getProgramName = ''''\<rparr>"

definition acceptAll :: "Object \<Rightarrow> Value \<Rightarrow> bool" where
  "acceptAll object v = True"

text \<open>
  Auxiliary definitions for the proofs about \<^verbatim>\<open>SubstituteDefault\<close>.  \<open>filled\<close> is the list
  of an object after the statement \<^verbatim>\<open>if pattern[o] == nil { pattern.Add(o, v, true) }\<close>,
  from its list \<open>r\<close> before; \<open>filledLang\<close> is the same for the statement that adds the
  name language and then the weak \<^verbatim>\<open>"en-us"\<close>.  \<open>firstValue\<close> is the value that
  \<^verbatim>\<open>GetAt(o, 0)\<close> returns, and \<open>sd_pre\<close>, \<open>sd_size\<close>, \<open>sd_mid\<close> and \<open>sd_lang\<close> are the four
  parts of the function in sequence.
\<close>

definition filled ::
  "(Object \<Rightarrow> Value \<Rightarrow> bool) \<Rightarrow> Object \<Rightarrow> Value \<Rightarrow> valueList option \<Rightarrow> valueList option" where
  "filled hasValidType object v r =
     (case r of
        Some e \<Rightarrow> Some e
      | None \<Rightarrow> if hasValidType object v
                then Some [\<lparr>Value = v, Binding = ValueBindingStrong\<rparr>] else None)"

definition filledLang ::
  "(Object \<Rightarrow> Value \<Rightarrow> bool) \<Rightarrow> Object \<Rightarrow> Value \<Rightarrow> Value \<Rightarrow> valueList option
     \<Rightarrow> valueList option" where
  "filledLang hasValidType object namelang lang r =
     (case r of
        Some e \<Rightarrow> Some e
      | None \<Rightarrow>
          if hasValidType object namelang then
            (if hasValidType object lang
             then Some [\<lparr>Value = namelang, Binding = ValueBindingStrong\<rparr>,
                        \<lparr>Value = lang, Binding = ValueBindingWeak\<rparr>]
             else Some [\<lparr>Value = namelang, Binding = ValueBindingStrong\<rparr>])
          else
            (if hasValidType object lang
             then Some [\<lparr>Value = lang, Binding = ValueBindingWeak\<rparr>]
             else None))"

definition firstValue :: "Pattern \<Rightarrow> Object \<Rightarrow> Value" where
  "firstValue p object = (case getVals p object of [] \<Rightarrow> NilValue | x # _ \<Rightarrow> Value x)"

definition sd_pre :: "fc_decls \<Rightarrow> (Object \<Rightarrow> Value \<Rightarrow> bool) \<Rightarrow> Pattern \<Rightarrow> Pattern" where
  "sd_pre K hasValidType pattern =
     fold (defaultBool hasValidType) (boolDefaults K)
       (defaultInteger hasValidType (WIDTH K) (WIDTH_NORMAL K)
         (defaultInteger hasValidType (SLANT K) (SLANT_ROMAN K)
           (defaultInteger hasValidType (WEIGHT K) (WEIGHT_NORMAL K) pattern)))"

definition sd_size :: "fc_decls \<Rightarrow> (Object \<Rightarrow> Value \<Rightarrow> bool) \<Rightarrow> Pattern \<Rightarrow> Pattern" where
  "sd_size K hasValidType pattern =
     (let size = requestedSize K pattern;
          scale = firstFloat pattern (SCALE K) (Finite 1);
          dpi = firstFloat pattern (DPI K) (Finite 75)
      in if getVals pattern (PIXEL_SIZE K) = [] then
           AddFloat hasValidType
             (Del (AddFloat hasValidType
                    (AddFloat hasValidType
                      (Del (AddFloat hasValidType (Del pattern (SCALE K)) (SCALE K) scale) (DPI K))
                      (DPI K) dpi)
                    (PIXEL_SIZE K) (f64_mul (f64_mul size scale) (f64_div dpi (Finite 72))))
               (SIZE K))
             (SIZE K) size
         else
           AddFloat hasValidType (Del pattern (SIZE K)) (SIZE K)
             (f64_div (f64_mul (f64_div (firstFloat pattern (PIXEL_SIZE K) (Finite 0)) dpi)
                 (Finite 72)) scale))"

definition sd_mid :: "fc_decls \<Rightarrow> (Object \<Rightarrow> Value \<Rightarrow> bool) \<Rightarrow> Pattern \<Rightarrow> Pattern" where
  "sd_mid K hasValidType pattern =
     defaultString hasValidType (NAMELANG K) (getDefaultLang K)
       (defaultInteger hasValidType (HINT_STYLE K) (HINT_FULL K)
         (defaultInteger hasValidType (FONTVERSION K) 0x7fffffff pattern))"

definition sd_lang :: "fc_decls \<Rightarrow> (Object \<Rightarrow> Value \<Rightarrow> bool) \<Rightarrow> Pattern \<Rightarrow> Pattern" where
  "sd_lang K hasValidType pattern =
     (let namelang = firstValue pattern (NAMELANG K); lang = String ''en-us'' in
      defaultInteger hasValidType (ORDER K) 0
        (defaultPrgname hasValidType (PRGNAME K) (getProgramName K)
          (defaultLang hasValidType (FULLNAMELANG K) namelang lang
            (defaultLang hasValidType (STYLELANG K) namelang lang
              (defaultLang hasValidType (FAMILYLANG K) namelang lang pattern)))))"

definition sd_all :: "fc_decls \<Rightarrow> (Object \<Rightarrow> Value \<Rightarrow> bool) \<Rightarrow> Pattern \<Rightarrow> Pattern" where
  "sd_all K hasValidType pattern =
     sd_lang K hasValidType (sd_mid K hasValidType (sd_size K hasValidType
       (sd_pre K hasValidType pattern)))"

text \<open>
  The objects that \<^verbatim>\<open>SubstituteDefault\<close> fills with one value when they are absent, with
  that value (the program name is only added when it is not empty).
\<close>

definition simpleDefaults :: "fc_decls \<Rightarrow> (Object \<times> Value) list" where
  "simpleDefaults K =
     [(WEIGHT K, IntVal (WEIGHT_NORMAL K)), (SLANT K, IntVal (SLANT_ROMAN K)),
      (WIDTH K, IntVal (WIDTH_NORMAL K)), (HINTING K, Bool 1), (VERTICAL_LAYOUT K, Bool 0),
      (AUTOHINT K, Bool 0), (GLOBAL_ADVANCE K, Bool 1), (EMBEDDED_BITMAP K, Bool 1),
      (DECORATIVE K, Bool 0), (SYMBOL K, Bool 0), (VARIABLE K, Bool 0),
      (FONTVERSION K, IntVal 0x7fffffff), (HINT_STYLE K, IntVal (HINT_FULL K)),
      (NAMELANG K, String (getDefaultLang K)), (ORDER K, IntVal 0)]
     @ (if getProgramName K \<noteq> '''' then [(PRGNAME K, String (getProgramName K))] else [])"

definition firstOf :: "valueList option \<Rightarrow> Value" where
  "firstOf r = (case r of Some (x # _) \<Rightarrow> Value x | _ \<Rightarrow> NilValue)"

text \<open>
  A pattern that only asks for the scale 0, and what \<^verbatim>\<open>SubstituteDefault\<close> makes of it
  when it is applied once and twice; a pattern that asks for the size 10, one that asks
  for a size from 10 to 15, and one that asks for the pixel size 20 at 100 dots per
  inch; and a pattern whose pixel size is the integer 20, with what
  \<^verbatim>\<open>SubstituteDefault\<close> makes of it.
\<close>

definition scaleZero :: Pattern where
  "scaleZero = AddFloat acceptAll NewPattern 28 (Finite 0)"

definition scaleZeroOnce :: Pattern where
  "scaleZeroOnce = sd_all exampleDecls acceptAll scaleZero"

definition scaleZeroTwice :: Pattern where
  "scaleZeroTwice = sd_all exampleDecls acceptAll scaleZeroOnce"


definition pixelTwenty :: Pattern where
  "pixelTwenty = AddFloat acceptAll (AddFloat acceptAll NewPattern 12 (Finite 20)) 26 (Finite 100)"


definition pixelInt :: Pattern where
  "pixelInt = AddInteger acceptAll NewPattern 12 20"

definition pixelIntOnce :: Pattern where
  "pixelIntOnce = sd_all exampleDecls acceptAll pixelInt"

text \<open>
  Auxiliary definitions for the proofs about \<^verbatim>\<open>Hash\<close>: the bytes that \<^verbatim>\<open>Hash\<close> appends
  for one object with a non-empty list, and the objects for which it appends them.
\<close>

definition hashEntry :: "(valueList \<Rightarrow> 8 word list) \<Rightarrow> Object \<Rightarrow> valueList \<Rightarrow> 8 word list" where
  "hashEntry valueList_Hash object v =
     PutUint16 object @ PutUint32 (word_of_nat (length (valueList_Hash v))) @ valueList_Hash v"

definition nonemptyKeys :: "Pattern \<Rightarrow> Object list" where
  "nonemptyKeys p = filter (\<lambda>object. getVals p object \<noteq> []) (sortedKeys p)"

text \<open>
  A hash of value lists for the concrete examples (the bytes of the strings of the list,
  each followed by a zero byte), and patterns built with \<^verbatim>\<open>Add\<close> and \<^verbatim>\<open>AddList\<close>: the
  two orders of the scenario, a pattern with another string, and the pattern that holds
  the empty list under the object 1.
\<close>

definition exampleListHash :: "valueList \<Rightarrow> 8 word list" where
  "exampleListHash v =
     concat (map (\<lambda>e. case Value e of String s \<Rightarrow> map (\<lambda>c. of_nat (of_char c)) s @ [0] | _ \<Rightarrow> [0]) v)"

definition patXY :: Pattern where
  "patXY = Add acceptAll (Add acceptAll NewPattern 1 (String ''x'') True) 2 (String ''y'') True"

definition patYX :: Pattern where
  "patYX = Add acceptAll (Add acceptAll NewPattern 2 (String ''y'') True) 1 (String ''x'') True"

definition patXZ :: Pattern where
  "patXZ = Add acceptAll (Add acceptAll NewPattern 1 (String ''x'') True) 2 (String ''z'') True"

definition emptyListPattern :: Pattern where
  "emptyListPattern = AddList acceptAll NewPattern 1 [] True"

section \<open>Graphite: the Sill table\<close>

type_synonym Tag = "32 word"

definition spaceToZero :: "Tag \<Rightarrow> 32 word" where
  "spaceToZero x =
     (if x = 0x20202020 then 0
      else if x AND 0x00FFFFFF = 0x00202020 then x AND 0xFF000000
      else if x AND 0x0000FFFF = 0x00002020 then x AND 0xFFFF0000
      else if x AND 0x000000FF = 0x00000020 then x AND 0xFFFFFF00
      else x)"

definition zeroToSpace :: "32 word \<Rightarrow> Tag" where
  "zeroToSpace x =
     (if x = 0 then 0x20202020
      else if x AND 0x00FFFFFF = 0 then x AND 0xFF202020
      else if x AND 0x0000FFFF = 0 then x AND 0xFFFF2020
      else if x AND 0x000000FF = 0 then x AND 0xFFFFFF20
      else x)"

text \<open>
  \<^verbatim>\<open>languageSetting\<close> (its padding bytes left out) and \<^verbatim>\<open>languageRecord\<close>.  The field
  \<^verbatim>\<open>Value\<close> is an \<^verbatim>\<open>int16\<close>.
\<close>

record languageSetting =
  FeatureId :: "32 word"
  Value_ls :: "16 word"

record languageRecord =
  settings :: "languageSetting list"
  langcode :: "32 word"

type_synonym TableSill = "languageRecord list"

text \<open>
  \<^verbatim>\<open>TableFeat\<close>, \<^verbatim>\<open>FeatureValue\<close>, \<^verbatim>\<open>findFeature\<close> and \<^verbatim>\<open>defaultFeatures\<close> are declared
  outside the files verified here.  A feature table is given by what the two functions return
  on it: \<open>findFeature\<close> is the lookup of a feature by its identifier (the flags of the
  feature found, or nothing), \<open>defaultFeatures\<close> the default list.  A \<^verbatim>\<open>FeatureValue\<close>
  has the three fields that \<^verbatim>\<open>applyValues\<close> fills.
\<close>

record FeatureValue =
  Id_fv :: Tag
  Flags_fv :: "16 word"
  Value_fv :: "16 word"

type_synonym FeaturesValue = "FeatureValue list"

record TableFeat =
  findFeature :: "32 word \<Rightarrow> 16 word option"
  defaultFeatures :: FeaturesValue

text \<open>
  \<^verbatim>\<open>sort.Slice\<close> returns a permutation of the slice that is sorted for the given
  \<^verbatim>\<open>less\<close>; it does not promise the order of elements that compare equal.  It is
  modelled by insertion sort on the key, which fixes that order; the results below
  only use that the result is a sorted permutation.
\<close>

definition applyValues :: "languageRecord \<Rightarrow> TableFeat \<Rightarrow> FeaturesValue" where
  "applyValues lr features =
     (let out = concat (map (\<lambda>set'.
                   (case findFeature features (FeatureId set') of
                      Some flags \<Rightarrow>
                        [\<lparr>Id_fv = zeroToSpace (FeatureId set'), Flags_fv = flags,
                          Value_fv = Value_ls set'\<rparr>]
                    | None \<Rightarrow> []))
                 (settings lr))
      in sort_key Id_fv out)"

definition GetFeatures :: "TableSill \<Rightarrow> 32 word \<Rightarrow> TableFeat \<Rightarrow> FeaturesValue" where
  "GetFeatures si langname features =
     (let langname = spaceToZero langname in
      case find (\<lambda>rec. langcode rec = langname) si of
        Some rec \<Rightarrow> applyValues rec features
      | None \<Rightarrow> defaultFeatures features)"

text \<open>A feature table and a Sill table for the concrete examples.\<close>

definition exampleFeat :: TableFeat where
  "exampleFeat =
     \<lparr>findFeature = (\<lambda>i. if i = 0x6C696700 then Some 0x8000
                          else if i = 0x00000001 then Some 0 else None),
      defaultFeatures = []\<rparr>"

definition exampleSill :: TableSill where
  "exampleSill =
     [\<lparr>settings = [\<lparr>FeatureId = 0x6C696700, Value_ls = 1\<rparr>,
                   \<lparr>FeatureId = 0x00000007, Value_ls = 2\<rparr>,
                   \<lparr>FeatureId = 0x00000001, Value_ls = 3\<rparr>],
       langcode = 0x656E0000\<rparr>]"

section \<open>Myanmar shaper: reordering of a consonant syllable\<close>

text \<open>
  The fields of \<^verbatim>\<open>cm.GlyphInfo\<close> that the reordering reads and writes.  The record is
  declared outside the files verified here; \<^verbatim>\<open>AuxCategory\<close> and \<^verbatim>\<open>Aux2\<close> are bytes
  (\<^verbatim>\<open>foundSyllableMyanmar\<close> stores a \<^verbatim>\<open>uint8\<close> in \<^verbatim>\<open>Aux2\<close>).
\<close>

record GlyphInfo =
  Codepoint :: "32 word"
  AuxCategory :: "8 word"
  Aux2 :: "8 word"

definition OT_As :: "8 word" where "OT_As = 18"
definition OT_MR :: "8 word" where "OT_MR = 22"
definition OT_VS :: "8 word" where "OT_VS = 30"

text \<open>
  The categories \<^verbatim>\<open>OT_H\<close>, \<^verbatim>\<open>OT_Ra\<close>, \<^verbatim>\<open>OT_A\<close> and \<^verbatim>\<open>OT_VBlw\<close>, the positions
  \<^verbatim>\<open>POS_...\<close> and the predicate \<^verbatim>\<open>is_consonant\<close> are declared outside the files
  verified here: they are the fields of the parameter \<open>M\<close>.
\<close>

record myanmar_decls =
  OT_H :: "8 word"
  OT_Ra :: "8 word"
  OT_A :: "8 word"
  OT_VBlw :: "8 word"
  POS_PRE_C :: "8 word"
  POS_BASE_C :: "8 word"
  POS_AFTER_MAIN :: "8 word"
  POS_BEFORE_SUB :: "8 word"
  POS_BELOW_C :: "8 word"
  POS_AFTER_SUB :: "8 word"
  is_consonant :: "GlyphInfo \<Rightarrow> bool"

text \<open>
  Modelled from the spec: \<^verbatim>\<open>Buffer.Sort\<close> is outside the files verified here; it is to
  "stable-sort the syllable's glyph sub-range by the assigned tag, preserving relative
  order of equal-tagged glyphs".  The comparison function of the call is the difference
  of the two \<^verbatim>\<open>Aux2\<close> values as integers.
\<close>

definition Sort :: "GlyphInfo list \<Rightarrow> nat \<Rightarrow> nat \<Rightarrow> GlyphInfo list" where
  "Sort info start end' =
     (if start < end'
      then take start info
           @ sort_key (\<lambda>a. unat (Aux2 a)) (take (end' - start) (drop start info))
           @ drop end' info
      else info)"

text \<open>The loops \<^verbatim>\<open>for ; i < end; i++ { info[i].Aux2 = v }\<close>.\<close>

definition set_positions :: "GlyphInfo list \<Rightarrow> nat \<Rightarrow> nat \<Rightarrow> 8 word \<Rightarrow> GlyphInfo list" where
  "set_positions info i end' v = fold (\<lambda>j info. info[j := (info ! j)\<lparr>Aux2 := v\<rparr>]) [i..<end'] info"

text \<open>The last loop of the function, with its variables \<open>i\<close> and \<open>pos\<close>.\<close>

function reorder_loop ::
  "myanmar_decls \<Rightarrow> nat \<Rightarrow> nat \<Rightarrow> 8 word \<Rightarrow> GlyphInfo list \<Rightarrow> GlyphInfo list" where
  "reorder_loop M end' i pos info =
     (if i < end' then
        (if AuxCategory (info ! i) = OT_MR then
           reorder_loop M end' (i + 1) pos (info[i := (info ! i)\<lparr>Aux2 := POS_PRE_C M\<rparr>])
         else if Aux2 (info ! i) < POS_BASE_C M then
           reorder_loop M end' (i + 1) pos info
         else if AuxCategory (info ! i) = OT_VS then
           reorder_loop M end' (i + 1) pos (info[i := (info ! i)\<lparr>Aux2 := Aux2 (info ! (i - 1))\<rparr>])
         else if pos = POS_AFTER_MAIN M \<and> AuxCategory (info ! i) = OT_VBlw M then
           reorder_loop M end' (i + 1) (POS_BELOW_C M)
             (info[i := (info ! i)\<lparr>Aux2 := POS_BELOW_C M\<rparr>])
         else if pos = POS_BELOW_C M \<and> AuxCategory (info ! i) = OT_A M then
           reorder_loop M end' (i + 1) pos (info[i := (info ! i)\<lparr>Aux2 := POS_BEFORE_SUB M\<rparr>])
         else if pos = POS_BELOW_C M \<and> AuxCategory (info ! i) = OT_VBlw M then
           reorder_loop M end' (i + 1) pos (info[i := (info ! i)\<lparr>Aux2 := pos\<rparr>])
         else if pos = POS_BELOW_C M \<and> AuxCategory (info ! i) \<noteq> OT_A M then
           reorder_loop M end' (i + 1) (POS_AFTER_SUB M)
             (info[i := (info ! i)\<lparr>Aux2 := POS_AFTER_SUB M\<rparr>])
         else
           reorder_loop M end' (i + 1) pos (info[i := (info ! i)\<lparr>Aux2 := pos\<rparr>]))
      else info)"
  by pat_completeness auto
termination
  by (relation "measure (\<lambda>(M, end', i, pos, info). end' - i)") auto

text \<open>
  \<^verbatim>\<open>initialReorderingConsonantSyllable\<close> on the glyphs \<open>info\<close> of the buffer.  The
  syllable iterator calls it with \<open>start \<le> end \<le> len(info)\<close>; when \<open>end\<close> is beyond
  the buffer the index expressions of the source can be out of range, and the model
  returns \<open>None\<close> for every such call.  The parameter \<^verbatim>\<open>end\<close> is assigned to in the
  body: \<open>end'\<close> is its value at entry, \<open>end''\<close> its value after the assignment
  \<^verbatim>\<open>end = start\<close> and the conditional \<^verbatim>\<open>end = start + 3\<close>.
\<close>

definition initialReorderingConsonantSyllable ::
  "myanmar_decls \<Rightarrow> GlyphInfo list \<Rightarrow> nat \<Rightarrow> nat \<Rightarrow> GlyphInfo list option" where
  "initialReorderingConsonantSyllable M info start end' =
     (if length info < end' then None
      else
        (let base = end';
             hasReph = False;
             limit = start;
             isReph = (start + 3 \<le> end'
                        \<and> AuxCategory (info ! start) = OT_Ra M
                        \<and> AuxCategory (info ! (start + 1)) = OT_As
                        \<and> AuxCategory (info ! (start + 2)) = OT_H M);
             limit = (if isReph then limit + 3 else limit);
             base = (if isReph then start else base);
             hasReph = (if isReph then True else hasReph);
             base = (if \<not> hasReph then limit else base);
             base = (case find (\<lambda>i. is_consonant M (info ! i)) [limit..<end'] of
                       Some i \<Rightarrow> i
                     | None \<Rightarrow> base);
             i = start;
             end'' = start;
             end'' = (if hasReph then start + 3 else end'');
             info = set_positions info i end'' (POS_AFTER_MAIN M);
             i = max i end'';
             info = set_positions info i base (POS_PRE_C M);
             i = max i base;
             (info, i) = (if i < end'' then (info[i := (info ! i)\<lparr>Aux2 := POS_BASE_C M\<rparr>], i + 1)
                          else (info, i));
             pos = POS_AFTER_MAIN M;
             info = reorder_loop M end'' i pos info
         in Some (Sort info start end'')))"

text \<open>
  The values that the declarations have in HarfBuzz, from which the shaper is ported
  (\<^verbatim>\<open>hb-ot-shape-complex-indic.hh\<close> and \<^verbatim>\<open>hb-ot-shape-complex-myanmar.cc\<close>), for the
  concrete example: a consonant is a glyph of category \<open>C\<close> (1), \<open>PLACEHOLDER\<close> (11),
  \<open>DOTTEDCIRCLE\<close> (12), \<open>Ra\<close> (16), \<open>CS\<close> (19), \<open>D0\<close> (20) or \<open>D\<close> (32).
\<close>

definition harfbuzzDecls :: myanmar_decls where
  "harfbuzzDecls =
     \<lparr>OT_H = 4, OT_Ra = 16, OT_A = 10, OT_VBlw = 27,
      POS_PRE_C = 3, POS_BASE_C = 4, POS_AFTER_MAIN = 5, POS_BEFORE_SUB = 7,
      POS_BELOW_C = 8, POS_AFTER_SUB = 9,
      is_consonant = (\<lambda>g. AuxCategory g \<in> set [1, 11, 12, 16, 19, 20, 32])\<rparr>"

text \<open>
  The syllable of the scenario: Ra (U+101B), Asat (U+103A), Halant (U+1039), a consonant
  (U+1000) and a vowel sign below (U+102F), with their categories and, in \<^verbatim>\<open>Aux2\<close>,
  the syllable tag of a first consonant syllable.
\<close>

definition rephaSyllable :: "GlyphInfo list" where
  "rephaSyllable =
     [\<lparr>Codepoint = 0x101B, AuxCategory = 16, Aux2 = 0x10\<rparr>,
      \<lparr>Codepoint = 0x103A, AuxCategory = 18, Aux2 = 0x10\<rparr>,
      \<lparr>Codepoint = 0x1039, AuxCategory = 4, Aux2 = 0x10\<rparr>,
      \<lparr>Codepoint = 0x1000, AuxCategory = 1, Aux2 = 0x10\<rparr>,
      \<lparr>Codepoint = 0x102F, AuxCategory = 27, Aux2 = 0x10\<rparr>]"

section \<open>Loading the configuration\<close>

definition CONFIGDIR :: string where
  \<open>CONFIGDIR = ''/usr/local/etc/fonts/conf.d''\<close>

definition FC_CACHEDIR :: string where
  \<open>FC_CACHEDIR = ''/var/local/cache/fontconfig''\<close>

definition FC_DEFAULT_FONTS :: string where
  \<open>FC_DEFAULT_FONTS = ''<dir>/usr/share/fonts</dir>''\<close>

definition FC_TEMPLATEDIR :: string where
  \<open>FC_TEMPLATEDIR = ''/usr/local/share/fontconfig/conf.avail''\<close>

text \<open>
  \<^verbatim>\<open>Config\<close>, \<^verbatim>\<open>NewConfig\<close>, \<^verbatim>\<open>Config.parseConfig\<close> and \<^verbatim>\<open>Config.LoadFromMemory\<close> are
  declared outside the files verified here: they are the fields of the parameter \<open>api\<close>, over
  any type \<open>'c\<close> of configurations and \<open>'e\<close> of errors.  The two methods work on the
  configuration in place and return an error or nil: here they return the configuration
  afterwards and the error, \<open>None\<close> for nil.
\<close>

record ('c, 'e) config_api =
  NewConfig :: 'c
  parseConfig :: "'c \<Rightarrow> string \<Rightarrow> 'c \<times> 'e option"
  LoadFromMemory :: "'c \<Rightarrow> string \<Rightarrow> 'c \<times> 'e option"

text \<open>The text of the built-in configuration, as \<^verbatim>\<open>fmt.Sprintf\<close> builds it.\<close>

definition fallback :: string where
  \<open>fallback = concat
     [[CHR 0x09, CHR 0x0A],
      [CHR 0x09], '' <fontconfig>'', [CHR 0x0A],
      [CHR 0x09], ''  '', [CHR 0x09], FC_DEFAULT_FONTS, [CHR 0x0A],
      [CHR 0x09, CHR 0x09], ''<cachedir>'', FC_CACHEDIR, ''</cachedir>'', [CHR 0x0A],
      [CHR 0x09, CHR 0x09], ''<cachedir prefix="xdg">fontconfig</cachedir>'', [CHR 0x0A],
      [CHR 0x09, CHR 0x09], ''<include ignore_missing="yes">'', CONFIGDIR, ''</include>'',
        [CHR 0x0A],
      [CHR 0x09, CHR 0x09],
        ''<include ignore_missing="yes" prefix="xdg">fontconfig/conf.d</include>'', [CHR 0x0A],
      [CHR 0x09, CHR 0x09],
        ''<include ignore_missing="yes" prefix="xdg">fontconfig/fonts.conf</include>'',
        [CHR 0x0A],
      [CHR 0x09], '' </fontconfig>'', [CHR 0x0A],
      [CHR 0x09], '' '']\<close>

text \<open>
  A result \<^verbatim>\<open>(*Config, error)\<close> is a pair of options: \<open>None\<close> is the nil pointer on the
  left and the nil error on the right.
\<close>

definition initFallbackConfig :: "('c, 'e) config_api \<Rightarrow> 'c option \<times> 'e option" where
  "initFallbackConfig api =
     (let config = NewConfig api;
          (config, err) = LoadFromMemory api config fallback
      in (Some config, err))"

definition initLoadOwnConfig :: "('c, 'e) config_api \<Rightarrow> 'c option \<times> 'e option" where
  "initLoadOwnConfig api =
     (let config = NewConfig api;
          (config, err) = parseConfig api config ''''
      in if err \<noteq> None then initFallbackConfig api
         else (let (config, err) = parseConfig api config FC_TEMPLATEDIR
               in if err \<noteq> None then (None, err)
                  else (Some config, None)))"

text \<open>
  An interface for the concrete examples: a configuration is the list of the texts
  loaded into it, no file can be parsed, and loading a text from memory succeeds.
\<close>

definition noFilesApi :: "(string list, string) config_api" where
  "noFilesApi =
     \<lparr>NewConfig = [],
      parseConfig = (\<lambda>config path. (config, Some ''cannot open'')),
      LoadFromMemory = (\<lambda>config text. (config @ [text], None))\<rparr>"

section \<open>Concrete inputs\<close>

text \<open>An admissibility table that accepts strings for every object, and nothing else.\<close>

definition stringsOnly :: "Object \<Rightarrow> Value \<Rightarrow> bool" where
  "stringsOnly object v = (case v of String s \<Rightarrow> True | _ \<Rightarrow> False)"

text \<open>The pattern with the one string \<open>''x''\<close> under the object 1.\<close>

definition pat1 :: Pattern where
  "pat1 = Mapping.update 1 [\<lparr>Value = String ''x'', Binding = ValueBindingStrong\<rparr>] Mapping.empty"

definition planThai :: hb_ot_shape_planner_t where
  "planThai = \<lparr>script = Thai, direction = LeftToRight,
               chosen_script = (newTag 0x44 0x46 0x4C 0x54, 0)\<rparr>"

definition planMyanmar :: hb_ot_shape_planner_t where
  "planMyanmar = \<lparr>script = Myanmar, direction = LeftToRight,
                  chosen_script = (newTag 0x6C 0x61 0x74 0x6E, 0)\<rparr>"

section \<open>Basic facts about patterns\<close>

lemma find_invalid_None:
  "find (\<lambda>value. \<not> hvt object (Value value)) list = None
     \<longleftrightarrow> (\<forall>e \<in> set list. hvt object (Value e))"
  by (auto simp: find_None_iff)

lemma lookup_AddList:
  "Mapping.lookup (AddList hvt p object list appendMode) object' =
     (if object' = object \<and> (\<forall>e \<in> set list. hvt object (Value e))
      then Some (if appendMode then getVals p object @ list else list @ getVals p object)
      else Mapping.lookup p object')"
proof (cases "find (\<lambda>value. \<not> hvt object (Value value)) list")
  case None
  then have "\<forall>e \<in> set list. hvt object (Value e)" by (simp add: find_invalid_None)
  with None show ?thesis
    by (simp add: AddList_def getVals_def prepend_def lookup_update')
next
  case (Some a)
  then have "\<not> (\<forall>e \<in> set list. hvt object (Value e))"
    using find_invalid_None [of hvt object list] by simp
  with Some show ?thesis by (auto simp: AddList_def)
qed

lemma lookup_addWithBinding:
  "Mapping.lookup (addWithBinding hvt p object v b appendMode) object' =
     (if object' = object \<and> hvt object v
      then Some (if appendMode then getVals p object @ [\<lparr>Value = v, Binding = b\<rparr>]
                 else \<lparr>Value = v, Binding = b\<rparr> # getVals p object)
      else Mapping.lookup p object')"
  by (simp add: addWithBinding_def lookup_AddList)

lemma lookup_Add:
  "Mapping.lookup (Add hvt p object v appendMode) object' =
     (if object' = object \<and> hvt object v
      then Some (if appendMode
                 then getVals p object @ [\<lparr>Value = v, Binding = ValueBindingStrong\<rparr>]
                 else \<lparr>Value = v, Binding = ValueBindingStrong\<rparr> # getVals p object)
      else Mapping.lookup p object')"
  by (simp add: Add_def lookup_addWithBinding)

lemma lookup_AddFloat:
  "Mapping.lookup (AddFloat hvt p object f) object' =
     (if object' = object \<and> hvt object (Float f)
      then Some (getVals p object @ [\<lparr>Value = Float f, Binding = ValueBindingStrong\<rparr>])
      else Mapping.lookup p object')"
  by (simp add: AddFloat_def lookup_Add)

lemma lookup_Del:
  "Mapping.lookup (Del p object) object' =
     (if object' = object then None else Mapping.lookup p object')"
  by (simp add: Del_def lookup_delete)

lemma lookup_defaultInteger:
  "Mapping.lookup (defaultInteger hvt object v p) object' =
     (if object' = object then filled hvt object (IntVal v) (Mapping.lookup p object)
      else Mapping.lookup p object')"
  by (auto simp: defaultInteger_def AddInteger_def lookup_Add filled_def getVals_def
        split: option.splits)

lemma lookup_defaultBool:
  "Mapping.lookup (defaultBool hvt (object, b) p) object' =
     (if object' = object
      then filled hvt object (Bool (if b then 1 else 0)) (Mapping.lookup p object)
      else Mapping.lookup p object')"
  by (auto simp: defaultBool_def AddBool_def lookup_Add filled_def getVals_def
        split: option.splits)

lemma lookup_defaultString:
  "Mapping.lookup (defaultString hvt object v p) object' =
     (if object' = object then filled hvt object (String v) (Mapping.lookup p object)
      else Mapping.lookup p object')"
  by (auto simp: defaultString_def AddString_def lookup_Add filled_def getVals_def
        split: option.splits)

lemma lookup_defaultPrgname:
  "Mapping.lookup (defaultPrgname hvt object v p) object' =
     (if object' = object \<and> v \<noteq> '''' then filled hvt object (String v) (Mapping.lookup p object)
      else Mapping.lookup p object')"
  by (auto simp: defaultPrgname_def AddString_def lookup_Add filled_def getVals_def
        split: option.splits)

lemma lookup_defaultLang:
  "Mapping.lookup (defaultLang hvt object namelang lang p) object' =
     (if object' = object then filledLang hvt object namelang lang (Mapping.lookup p object)
      else Mapping.lookup p object')"
  by (auto simp: defaultLang_def lookup_Add lookup_addWithBinding filledLang_def getVals_def
        Let_def split: option.splits)

lemmas lookup_steps = lookup_AddFloat lookup_Del lookup_defaultInteger lookup_defaultBool
  lookup_defaultString lookup_defaultPrgname lookup_defaultLang

lemma filled_idem: "filled hvt object v (filled hvt object v r) = filled hvt object v r"
  by (simp add: filled_def split: option.splits)

lemma filledLang_idem:
  "filledLang hvt object n l (filledLang hvt object n l r) = filledLang hvt object n l r"
  by (simp add: filledLang_def split: option.splits)

lemma filled_None_iff: "filled hvt object v r = None \<longleftrightarrow> r = None \<and> \<not> hvt object v"
  by (simp add: filled_def split: option.splits)

lemma GetAt_0:
  "GetAt p object 0 = Some (case Mapping.lookup p object of
      None \<Rightarrow> (NilValue, ResultNoMatch)
    | Some e \<Rightarrow> (case e of [] \<Rightarrow> (NilValue, ResultNoId) | x # _ \<Rightarrow> (Value x, ResultMatch)))"
  by (auto simp: GetAt_def split: option.splits list.splits)

lemma GetAt_0_value: "\<exists>r. GetAt p object 0 = Some (firstValue p object, r)"
  by (simp add: GetAt_0 firstValue_def getVals_def split: option.splits list.splits)

lemma GetFloat_firstFloat:
  "\<exists>f ok. GetFloat p object = Some (f, ok) \<and> (if \<not> ok then d else f) = firstFloat p object d"
  by (auto simp: GetFloat_def GetAt_0 firstFloat_def getVals_def
        split: option.splits list.splits Value.splits)

lemma SubstituteDefault_parts:
  "SubstituteDefault K hvt p = Some (sd_lang K hvt (sd_mid K hvt (sd_size K hvt (sd_pre K hvt p))))"
proof -
  define X where "X = sd_pre K hvt p"
  obtain r where r: "GetAt X (SIZE K) 0 = Some (firstValue X (SIZE K), r)"
    using GetAt_0_value by blast
  obtain f1 ok1 where s: "GetFloat X (SCALE K) = Some (f1, ok1)"
      "(if \<not> ok1 then Finite 1 else f1) = firstFloat X (SCALE K) (Finite 1)"
    using GetFloat_firstFloat by blast
  obtain f2 ok2 where d: "GetFloat X (DPI K) = Some (f2, ok2)"
      "(if \<not> ok2 then Finite 75 else f2) = firstFloat X (DPI K) (Finite 75)"
    using GetFloat_firstFloat by blast
  have sz: "(case firstValue X (SIZE K) of
                   Float sizeObj \<Rightarrow> sizeObj
                 | Range Begin End \<Rightarrow> f64_mul (f64_add Begin End) (Finite (1 / 2))
                 | _ \<Rightarrow> Finite 12) = requestedSize K X"
    by (simp add: firstValue_def requestedSize_def split: list.splits Value.splits)
  have px: "getVals X (PIXEL_SIZE K) \<noteq> [] \<Longrightarrow>
       (case Value (getVals X (PIXEL_SIZE K) ! 0) of Float sizeF \<Rightarrow> sizeF | _ \<Rightarrow> Finite 0)
         = firstFloat X (PIXEL_SIZE K) (Finite 0)"
    by (cases "getVals X (PIXEL_SIZE K)") (simp_all add: firstFloat_def)
  define Y where "Y = sd_mid K hvt (sd_size K hvt X)"
  obtain r' where r': "GetAt Y (NAMELANG K) 0 = Some (firstValue Y (NAMELANG K), r')"
    using GetAt_0_value by blast
  have 1: "SubstituteDefault K hvt p = do {
     let pattern = X;
     (sizeObj, _) \<leftarrow> GetAt pattern (SIZE K) 0;
     let size = (case sizeObj of
                   Float sizeObj \<Rightarrow> sizeObj
                 | Range Begin End \<Rightarrow> f64_mul (f64_add Begin End) (Finite (1 / 2))
                 | _ \<Rightarrow> Finite 12);
     (scale, ok) \<leftarrow> GetFloat pattern (SCALE K);
     let scale = (if \<not> ok then Finite 1 else scale);
     (dpi, ok) \<leftarrow> GetFloat pattern (DPI K);
     let dpi = (if \<not> ok then Finite 75 else dpi);
     let pixelSize = getVals pattern (PIXEL_SIZE K);
     let (pattern, size) =
       (if length pixelSize = 0 then
          (let pattern = Del pattern (SCALE K);
               pattern = AddFloat hvt pattern (SCALE K) scale;
               pixelsize = f64_mul size scale;
               pattern = Del pattern (DPI K);
               pattern = AddFloat hvt pattern (DPI K) dpi;
               pixelsize = f64_mul pixelsize (f64_div dpi (Finite 72));
               pattern = AddFloat hvt pattern (PIXEL_SIZE K) pixelsize
           in (pattern, size))
        else
          (let sizeF = (case Value (pixelSize ! 0) of Float sizeF \<Rightarrow> sizeF | _ \<Rightarrow> Finite 0)
           in (pattern, f64_div (f64_mul (f64_div sizeF dpi) (Finite 72)) scale)));
     let pattern = Del pattern (SIZE K);
     let pattern = AddFloat hvt pattern (SIZE K) size;
     let pattern = defaultInteger hvt (FONTVERSION K) 0x7fffffff pattern;
     let pattern = defaultInteger hvt (HINT_STYLE K) (HINT_FULL K) pattern;
     let pattern = defaultString hvt (NAMELANG K) (getDefaultLang K) pattern;
     (namelang, _) \<leftarrow> GetAt pattern (NAMELANG K) 0;
     let lang = String ''en-us'';
     let pattern = defaultLang hvt (FAMILYLANG K) namelang lang pattern;
     let pattern = defaultLang hvt (STYLELANG K) namelang lang pattern;
     let pattern = defaultLang hvt (FULLNAMELANG K) namelang lang pattern;
     let pattern = defaultPrgname hvt (PRGNAME K) (getProgramName K) pattern;
     let pattern = defaultInteger hvt (ORDER K) 0 pattern;
     Some pattern
   }"
    unfolding SubstituteDefault_def X_def sd_pre_def by (simp only: Let_def)
  have 2: "\<dots> = do {
     let pattern = sd_mid K hvt (sd_size K hvt X);
     (namelang, _) \<leftarrow> GetAt pattern (NAMELANG K) 0;
     let lang = String ''en-us'';
     let pattern = defaultLang hvt (FAMILYLANG K) namelang lang pattern;
     let pattern = defaultLang hvt (STYLELANG K) namelang lang pattern;
     let pattern = defaultLang hvt (FULLNAMELANG K) namelang lang pattern;
     let pattern = defaultPrgname hvt (PRGNAME K) (getProgramName K) pattern;
     let pattern = defaultInteger hvt (ORDER K) 0 pattern;
     Some pattern
   }"
    using px [symmetric]
    by (simp add: r s(1) d(1) sz [symmetric] Let_def sd_size_def sd_mid_def
          s(2) [symmetric] d(2) [symmetric])
  have 3: "\<dots> = Some (sd_lang K hvt Y)"
    unfolding Y_def [symmetric] by (simp add: r' Let_def sd_lang_def)
  from 1 2 3 show ?thesis by (simp add: Y_def X_def)
qed

lemma SubstituteDefault_sd_all: "SubstituteDefault K hvt p = Some (sd_all K hvt p)"
  by (simp add: SubstituteDefault_parts sd_all_def)

lemma getVals_AddList:
  "getVals (AddList hvt p object list appendMode) object' =
     (if object' = object \<and> (\<forall>e \<in> set list. hvt object (Value e))
      then (if appendMode then getVals p object @ list else list @ getVals p object)
      else getVals p object')"
  by (simp add: getVals_def [of "AddList hvt p object list appendMode"] lookup_AddList)
     (simp add: getVals_def)

lemma getVals_Del:
  "getVals (Del p object) object' = (if object' = object then [] else getVals p object')"
  by (simp add: getVals_def lookup_Del)

lemma getVals_addWithTable:
  "getVals (addWithTable hvt p object list append') object' =
     (if object' = object then valueList_insert hvt (getVals p object) append' list object
      else getVals p object')"
  by (simp add: getVals_def addWithTable_def Let_def lookup_update')

section \<open>The parts of the default substitution, object by object\<close>

lemma distinctObjects_neq:
  assumes "distinctObjects K"
  shows "distinct [WEIGHT K, SLANT K, WIDTH K, HINTING K, VERTICAL_LAYOUT K, AUTOHINT K,
       GLOBAL_ADVANCE K, EMBEDDED_BITMAP K, DECORATIVE K, SYMBOL K, VARIABLE K, SIZE K,
       SCALE K, DPI K, PIXEL_SIZE K, FONTVERSION K, HINT_STYLE K, NAMELANG K, FAMILYLANG K,
       STYLELANG K, FULLNAMELANG K, PRGNAME K, ORDER K]
     \<and> distinct [ORDER K, PRGNAME K, FULLNAMELANG K, STYLELANG K, FAMILYLANG K, NAMELANG K,
       HINT_STYLE K, FONTVERSION K, PIXEL_SIZE K, DPI K, SCALE K, SIZE K, VARIABLE K, SYMBOL K,
       DECORATIVE K, EMBEDDED_BITMAP K, GLOBAL_ADVANCE K, AUTOHINT K, VERTICAL_LAYOUT K,
       HINTING K, WIDTH K, SLANT K, WEIGHT K]"
proof -
  have d: "distinct [WEIGHT K, SLANT K, WIDTH K, HINTING K, VERTICAL_LAYOUT K, AUTOHINT K,
       GLOBAL_ADVANCE K, EMBEDDED_BITMAP K, DECORATIVE K, SYMBOL K, VARIABLE K, SIZE K,
       SCALE K, DPI K, PIXEL_SIZE K, FONTVERSION K, HINT_STYLE K, NAMELANG K, FAMILYLANG K,
       STYLELANG K, FULLNAMELANG K, PRGNAME K, ORDER K]"
    using assms by (simp only: distinctObjects_def)
  have "rev [WEIGHT K, SLANT K, WIDTH K, HINTING K, VERTICAL_LAYOUT K, AUTOHINT K,
       GLOBAL_ADVANCE K, EMBEDDED_BITMAP K, DECORATIVE K, SYMBOL K, VARIABLE K, SIZE K,
       SCALE K, DPI K, PIXEL_SIZE K, FONTVERSION K, HINT_STYLE K, NAMELANG K, FAMILYLANG K,
       STYLELANG K, FULLNAMELANG K, PRGNAME K, ORDER K]
     = [ORDER K, PRGNAME K, FULLNAMELANG K, STYLELANG K, FAMILYLANG K, NAMELANG K,
       HINT_STYLE K, FONTVERSION K, PIXEL_SIZE K, DPI K, SCALE K, SIZE K, VARIABLE K, SYMBOL K,
       DECORATIVE K, EMBEDDED_BITMAP K, GLOBAL_ADVANCE K, AUTOHINT K, VERTICAL_LAYOUT K,
       HINTING K, WIDTH K, SLANT K, WEIGHT K]"
    by simp
  with d distinct_rev [of "[WEIGHT K, SLANT K, WIDTH K, HINTING K, VERTICAL_LAYOUT K, AUTOHINT K,
       GLOBAL_ADVANCE K, EMBEDDED_BITMAP K, DECORATIVE K, SYMBOL K, VARIABLE K, SIZE K,
       SCALE K, DPI K, PIXEL_SIZE K, FONTVERSION K, HINT_STYLE K, NAMELANG K, FAMILYLANG K,
       STYLELANG K, FULLNAMELANG K, PRGNAME K, ORDER K]"]
  show ?thesis by (simp only:)
qed

lemma lookup_sd_pre:
  assumes "distinctObjects K"
  shows "Mapping.lookup (sd_pre K hvt p) object =
     (if object = WEIGHT K then filled hvt object (IntVal (WEIGHT_NORMAL K)) (Mapping.lookup p object)
      else if object = SLANT K then filled hvt object (IntVal (SLANT_ROMAN K)) (Mapping.lookup p object)
      else if object = WIDTH K then filled hvt object (IntVal (WIDTH_NORMAL K)) (Mapping.lookup p object)
      else if object = HINTING K then filled hvt object (Bool 1) (Mapping.lookup p object)
      else if object = VERTICAL_LAYOUT K then filled hvt object (Bool 0) (Mapping.lookup p object)
      else if object = AUTOHINT K then filled hvt object (Bool 0) (Mapping.lookup p object)
      else if object = GLOBAL_ADVANCE K then filled hvt object (Bool 1) (Mapping.lookup p object)
      else if object = EMBEDDED_BITMAP K then filled hvt object (Bool 1) (Mapping.lookup p object)
      else if object = DECORATIVE K then filled hvt object (Bool 0) (Mapping.lookup p object)
      else if object = SYMBOL K then filled hvt object (Bool 0) (Mapping.lookup p object)
      else if object = VARIABLE K then filled hvt object (Bool 0) (Mapping.lookup p object)
      else Mapping.lookup p object)"
  using distinctObjects_neq [OF assms]
  by (simp add: sd_pre_def boolDefaults_def lookup_steps)

lemma lookup_sd_size:
  assumes "distinctObjects K"
  shows "Mapping.lookup (sd_size K hvt p) object =
     (if getVals p (PIXEL_SIZE K) = [] then
        (if object = SIZE K then
           (if hvt (SIZE K) (Float (requestedSize K p))
            then Some [\<lparr>Value = Float (requestedSize K p), Binding = ValueBindingStrong\<rparr>]
            else None)
         else if object = PIXEL_SIZE K then
           (if hvt (PIXEL_SIZE K) (Float (f64_mul (f64_mul (requestedSize K p)
                  (firstFloat p (SCALE K) (Finite 1)))
                  (f64_div (firstFloat p (DPI K) (Finite 75)) (Finite 72))))
            then Some [\<lparr>Value = Float (f64_mul (f64_mul (requestedSize K p)
                  (firstFloat p (SCALE K) (Finite 1)))
                  (f64_div (firstFloat p (DPI K) (Finite 75)) (Finite 72))),
                  Binding = ValueBindingStrong\<rparr>]
            else Mapping.lookup p (PIXEL_SIZE K))
         else if object = DPI K then
           (if hvt (DPI K) (Float (firstFloat p (DPI K) (Finite 75)))
            then Some [\<lparr>Value = Float (firstFloat p (DPI K) (Finite 75)),
                        Binding = ValueBindingStrong\<rparr>]
            else None)
         else if object = SCALE K then
           (if hvt (SCALE K) (Float (firstFloat p (SCALE K) (Finite 1)))
            then Some [\<lparr>Value = Float (firstFloat p (SCALE K) (Finite 1)),
                        Binding = ValueBindingStrong\<rparr>]
            else None)
         else Mapping.lookup p object)
      else
        (if object = SIZE K then
           (if hvt (SIZE K) (Float (f64_div (f64_mul (f64_div (firstFloat p (PIXEL_SIZE K) (Finite 0))
                  (firstFloat p (DPI K) (Finite 75))) (Finite 72)) (firstFloat p (SCALE K) (Finite 1))))
            then Some [\<lparr>Value = Float (f64_div (f64_mul (f64_div
                  (firstFloat p (PIXEL_SIZE K) (Finite 0))
                  (firstFloat p (DPI K) (Finite 75))) (Finite 72)) (firstFloat p (SCALE K) (Finite 1))),
                  Binding = ValueBindingStrong\<rparr>]
            else None)
         else Mapping.lookup p object))"
  using distinctObjects_neq [OF assms]
  by (simp add: sd_size_def Let_def lookup_steps getVals_def)

lemma lookup_sd_mid:
  assumes "distinctObjects K"
  shows "Mapping.lookup (sd_mid K hvt p) object =
     (if object = FONTVERSION K then filled hvt object (IntVal 0x7fffffff) (Mapping.lookup p object)
      else if object = HINT_STYLE K then filled hvt object (IntVal (HINT_FULL K)) (Mapping.lookup p object)
      else if object = NAMELANG K then filled hvt object (String (getDefaultLang K)) (Mapping.lookup p object)
      else Mapping.lookup p object)"
  using distinctObjects_neq [OF assms]
  by (simp add: sd_mid_def lookup_steps)

lemma lookup_sd_lang:
  assumes "distinctObjects K"
  shows "Mapping.lookup (sd_lang K hvt p) object =
     (if object = FAMILYLANG K \<or> object = STYLELANG K \<or> object = FULLNAMELANG K
      then filledLang hvt object (firstOf (Mapping.lookup p (NAMELANG K))) (String ''en-us'')
             (Mapping.lookup p object)
      else if object = PRGNAME K \<and> getProgramName K \<noteq> ''''
      then filled hvt object (String (getProgramName K)) (Mapping.lookup p object)
      else if object = ORDER K then filled hvt object (IntVal 0) (Mapping.lookup p object)
      else Mapping.lookup p object)"
proof -
  have "firstValue p (NAMELANG K) = firstOf (Mapping.lookup p (NAMELANG K))"
    by (simp add: firstValue_def firstOf_def getVals_def split: option.splits list.splits)
  then show ?thesis
    using distinctObjects_neq [OF assms]
    by (simp add: sd_lang_def Let_def lookup_steps)
qed

lemma getVals_sd_pre:
  assumes "distinctObjects K"
    and "object = SIZE K \<or> object = SCALE K \<or> object = DPI K \<or> object = PIXEL_SIZE K"
  shows "getVals (sd_pre K hvt p) object = getVals p object"
  using distinctObjects_neq [OF assms(1)] assms(2)
  by (auto simp: getVals_def lookup_sd_pre [OF assms(1)])

lemma reads_sd_pre:
  assumes "distinctObjects K"
  shows "requestedSize K (sd_pre K hvt p) = requestedSize K p"
    and "firstFloat (sd_pre K hvt p) (SCALE K) d = firstFloat p (SCALE K) d"
    and "firstFloat (sd_pre K hvt p) (DPI K) d = firstFloat p (DPI K) d"
    and "firstFloat (sd_pre K hvt p) (PIXEL_SIZE K) d = firstFloat p (PIXEL_SIZE K) d"
  by (simp_all add: requestedSize_def firstFloat_def getVals_sd_pre [OF assms])

text \<open>The whole function, at one object.\<close>

lemma map_of_simpleDefaults:
  "map_of (simpleDefaults K) object =
     (if object = WEIGHT K then Some (IntVal (WEIGHT_NORMAL K))
      else if object = SLANT K then Some (IntVal (SLANT_ROMAN K))
      else if object = WIDTH K then Some (IntVal (WIDTH_NORMAL K))
      else if object = HINTING K then Some (Bool 1)
      else if object = VERTICAL_LAYOUT K then Some (Bool 0)
      else if object = AUTOHINT K then Some (Bool 0)
      else if object = GLOBAL_ADVANCE K then Some (Bool 1)
      else if object = EMBEDDED_BITMAP K then Some (Bool 1)
      else if object = DECORATIVE K then Some (Bool 0)
      else if object = SYMBOL K then Some (Bool 0)
      else if object = VARIABLE K then Some (Bool 0)
      else if object = FONTVERSION K then Some (IntVal 0x7fffffff)
      else if object = HINT_STYLE K then Some (IntVal (HINT_FULL K))
      else if object = NAMELANG K then Some (String (getDefaultLang K))
      else if object = ORDER K then Some (IntVal 0)
      else if object = PRGNAME K \<and> getProgramName K \<noteq> '''' then Some (String (getProgramName K))
      else None)"
  by (simp add: simpleDefaults_def)

lemma lookup_sd_all:
  assumes "distinctObjects K"
  shows "Mapping.lookup (sd_all K hvt p) object =
     (if object = FAMILYLANG K \<or> object = STYLELANG K \<or> object = FULLNAMELANG K
      then filledLang hvt object
             (firstOf (filled hvt (NAMELANG K) (String (getDefaultLang K))
                (Mapping.lookup p (NAMELANG K))))
             (String ''en-us'') (Mapping.lookup p object)
      else if object = SIZE K \<or> object = SCALE K \<or> object = DPI K \<or> object = PIXEL_SIZE K
      then Mapping.lookup (sd_size K hvt (sd_pre K hvt p)) object
      else (case map_of (simpleDefaults K) object of
              Some v \<Rightarrow> filled hvt object v (Mapping.lookup p object)
            | None \<Rightarrow> Mapping.lookup p object))"
proof -
  note ne = distinctObjects_neq [OF assms, simplified]
  have 1: "Mapping.lookup (sd_all K hvt p) object =
     (if object = FAMILYLANG K \<or> object = STYLELANG K \<or> object = FULLNAMELANG K
      then filledLang hvt object
             (firstOf (filled hvt (NAMELANG K) (String (getDefaultLang K))
                (Mapping.lookup p (NAMELANG K))))
             (String ''en-us'') (Mapping.lookup p object)
      else if object = PRGNAME K \<and> getProgramName K \<noteq> ''''
      then filled hvt object (String (getProgramName K)) (Mapping.lookup p object)
      else if object = ORDER K then filled hvt object (IntVal 0) (Mapping.lookup p object)
      else Mapping.lookup (sd_mid K hvt (sd_size K hvt (sd_pre K hvt p))) object)"
    unfolding sd_all_def lookup_sd_lang [OF assms]
    by (simp add: ne lookup_sd_mid [OF assms] lookup_sd_size [OF assms] lookup_sd_pre [OF assms])
  have 2: "Mapping.lookup (sd_mid K hvt (sd_size K hvt (sd_pre K hvt p))) object =
     (if object = FONTVERSION K then filled hvt object (IntVal 0x7fffffff) (Mapping.lookup p object)
      else if object = HINT_STYLE K then filled hvt object (IntVal (HINT_FULL K)) (Mapping.lookup p object)
      else if object = NAMELANG K then filled hvt object (String (getDefaultLang K)) (Mapping.lookup p object)
      else Mapping.lookup (sd_size K hvt (sd_pre K hvt p)) object)"
    unfolding lookup_sd_mid [OF assms]
    by (simp add: ne lookup_sd_size [OF assms] lookup_sd_pre [OF assms])
  have 3: "object \<noteq> SIZE K \<Longrightarrow> object \<noteq> SCALE K \<Longrightarrow> object \<noteq> DPI K \<Longrightarrow> object \<noteq> PIXEL_SIZE K
      \<Longrightarrow> Mapping.lookup (sd_size K hvt (sd_pre K hvt p)) object
          = Mapping.lookup (sd_pre K hvt p) object"
    by (simp add: lookup_sd_size [OF assms])
  show ?thesis
  proof (cases "object = FAMILYLANG K \<or> object = STYLELANG K \<or> object = FULLNAMELANG K")
    case True
    then show ?thesis by (simp only: 1 if_True)
  next
    case lang: False
    show ?thesis
    proof (cases "object = SIZE K \<or> object = SCALE K \<or> object = DPI K \<or> object = PIXEL_SIZE K")
      case True
      then have "Mapping.lookup (sd_all K hvt p) object
          = Mapping.lookup (sd_size K hvt (sd_pre K hvt p)) object"
        unfolding 1 2 using ne by (elim disjE) simp_all
      with True lang show ?thesis by (simp only: if_True if_False)
    next
      case False
      then have n: "object \<noteq> SIZE K" "object \<noteq> SCALE K" "object \<noteq> DPI K" "object \<noteq> PIXEL_SIZE K"
        by simp_all
      have "Mapping.lookup (sd_all K hvt p) object =
         (case map_of (simpleDefaults K) object of
              Some v \<Rightarrow> filled hvt object v (Mapping.lookup p object)
            | None \<Rightarrow> Mapping.lookup p object)"
        unfolding 1 2 3 [OF n] lookup_sd_pre [OF assms] map_of_simpleDefaults
        using lang by (simp add: ne)
      with False lang show ?thesis by (simp only: if_False)
    qed
  qed
qed

section \<open>Results: the hash of a pattern\<close>

lemma PutUint16_inj: "PutUint16 a = PutUint16 b \<Longrightarrow> a = b"
proof -
  assume "PutUint16 a = PutUint16 b"
  then have h: "(ucast (drop_bit 8 a) :: 8 word) = ucast (drop_bit 8 b)"
    and l: "(ucast a :: 8 word) = ucast b"
    by (simp_all add: PutUint16_def)
  show "a = b"
  proof (rule bit_word_eqI)
    fix n assume n: "n < LENGTH(16)"
    show "bit a n \<longleftrightarrow> bit b n"
    proof (cases "n < 8")
      case True
      from l have "bit (ucast a :: 8 word) n \<longleftrightarrow> bit (ucast b :: 8 word) n" by simp
      with True show ?thesis by (simp add: bit_ucast_iff)
    next
      case False
      with n have m: "n - 8 < 8" by simp
      from h have "bit (ucast (drop_bit 8 a) :: 8 word) (n - 8)
          \<longleftrightarrow> bit (ucast (drop_bit 8 b) :: 8 word) (n - 8)" by simp
      with m False show ?thesis by (simp add: bit_ucast_iff bit_drop_bit_eq)
    qed
  qed
qed

lemma PutUint32_inj: "PutUint32 a = PutUint32 b \<Longrightarrow> a = b"
proof -
  assume "PutUint32 a = PutUint32 b"
  then have b3: "(ucast (drop_bit 24 a) :: 8 word) = ucast (drop_bit 24 b)"
    and b2: "(ucast (drop_bit 16 a) :: 8 word) = ucast (drop_bit 16 b)"
    and b1: "(ucast (drop_bit 8 a) :: 8 word) = ucast (drop_bit 8 b)"
    and b0: "(ucast a :: 8 word) = ucast b"
    by (simp_all add: PutUint32_def)
  have byte: "bit a (k + j) \<longleftrightarrow> bit b (k + j)"
    if "(ucast (drop_bit k a) :: 8 word) = ucast (drop_bit k b)" "j < 8" for k j
  proof -
    from that(1) have "bit (ucast (drop_bit k a) :: 8 word) j
          \<longleftrightarrow> bit (ucast (drop_bit k b) :: 8 word) j" by simp
    with that(2) show ?thesis by (simp add: bit_ucast_iff bit_drop_bit_eq)
  qed
  show "a = b"
  proof (rule bit_word_eqI)
    fix n assume n: "n < LENGTH(32)"
    consider "n < 8" | "8 \<le> n" "n < 16" | "16 \<le> n" "n < 24" | "24 \<le> n" "n < 32"
      using n by fastforce
    then show "bit a n \<longleftrightarrow> bit b n"
    proof cases
      case 1
      from b0 have "bit (ucast a :: 8 word) n \<longleftrightarrow> bit (ucast b :: 8 word) n" by simp
      with 1 show ?thesis by (simp add: bit_ucast_iff)
    next
      case 2
      then show ?thesis using byte [OF b1, of "n - 8"] by simp
    next
      case 3
      then show ?thesis using byte [OF b2, of "n - 16"] by simp
    next
      case 4
      then show ?thesis using byte [OF b3, of "n - 24"] by simp
    qed
  qed
qed

lemma word_of_nat_32_inj:
  assumes "m < 2 ^ 32" "n < 2 ^ 32" "(word_of_nat m :: 32 word) = word_of_nat n"
  shows "m = n"
proof -
  from assms(3) have "unat (word_of_nat m :: 32 word) = unat (word_of_nat n :: 32 word)"
    by simp
  with assms(1,2) show ?thesis by (simp add: unat_of_nat)
qed

lemma concat_map_filter_nonempty:
  assumes "\<And>x. x \<in> set xs \<Longrightarrow> \<not> P x \<Longrightarrow> f x = []"
  shows "concat (map f xs) = concat (map f (filter P xs))"
  using assms by (induction xs) auto

lemma Hash_nonemptyKeys:
  "Hash vh p = concat (map (\<lambda>object. hashEntry vh object (getVals p object)) (nonemptyKeys p))"
proof -
  let ?f = "\<lambda>object.
        (case Mapping.lookup p object of
           None \<Rightarrow> []
         | Some v \<Rightarrow>
            if length v = 0 then []
            else (let tmp = vh v in
                  PutUint16 object @ PutUint32 (word_of_nat (length tmp)) @ tmp))"
  have e: "?f object = []" if "\<not> getVals p object \<noteq> []" for object
    using that by (simp add: getVals_def split: option.splits)
  have n: "?f object = hashEntry vh object (getVals p object)" if "getVals p object \<noteq> []" for object
    using that by (simp add: getVals_def hashEntry_def Let_def split: option.splits)
  have "Hash vh p = concat (map ?f (sortedKeys p))"
    by (simp add: Hash_def)
  also have "\<dots> = concat (map ?f (filter (\<lambda>object. getVals p object \<noteq> []) (sortedKeys p)))"
    by (rule concat_map_filter_nonempty) (rule e)
  also have "\<dots> = concat (map (\<lambda>object. hashEntry vh object (getVals p object)) (nonemptyKeys p))"
    unfolding nonemptyKeys_def
    by (rule arg_cong [where f = concat], rule map_cong) (simp_all add: n)
  finally show ?thesis .
qed

lemma nonemptyKeys_props:
  "sorted (nonemptyKeys p)" "distinct (nonemptyKeys p)"
  "set (nonemptyKeys p) = {object. getVals p object \<noteq> []}"
proof -
  show "sorted (nonemptyKeys p)"
    by (simp add: nonemptyKeys_def sortedKeys_def sorted_wrt_filter)
  show "distinct (nonemptyKeys p)"
    by (simp add: nonemptyKeys_def sortedKeys_def)
  have "getVals p object = []" if "object \<notin> Mapping.keys p" for object
    using that by (simp add: getVals_def keys_dom_lookup domIff)
  then show "set (nonemptyKeys p) = {object. getVals p object \<noteq> []}"
    by (auto simp: nonemptyKeys_def sortedKeys_def)
qed

lemma nonemptyKeys_cong:
  assumes "\<forall>object. getVals p object = getVals q object"
  shows "nonemptyKeys p = nonemptyKeys q"
proof (rule sorted_distinct_set_unique)
  show "set (nonemptyKeys p) = set (nonemptyKeys q)"
    using assms by (simp add: nonemptyKeys_props)
qed (simp_all add: nonemptyKeys_props)

lemma Hash_cong:
  assumes "\<forall>object. getVals p object = getVals q object"
  shows "Hash vh p = Hash vh q"
  using assms by (simp add: Hash_nonemptyKeys nonemptyKeys_cong [OF assms])

lemma hashEntry_length: "6 \<le> length (hashEntry vh object v)"
  by (simp add: hashEntry_def PutUint16_def PutUint32_def)

lemma hashEntry_decode:
  assumes "hashEntry vh a v @ r = hashEntry vh b w @ s"
    and "length (vh v) < 2 ^ 32" "length (vh w) < 2 ^ 32"
  shows "a = b \<and> vh v = vh w \<and> r = s"
proof -
  have l2: "length (PutUint16 a) = length (PutUint16 b)"
    by (simp add: PutUint16_def)
  from assms(1) have 1: "PutUint16 a = PutUint16 b"
    and 2: "PutUint32 (word_of_nat (length (vh v))) @ vh v @ r
          = PutUint32 (word_of_nat (length (vh w))) @ vh w @ s"
    using l2 by (simp_all add: hashEntry_def)
  have l4: "length (PutUint32 (word_of_nat (length (vh v)) :: 32 word))
      = length (PutUint32 (word_of_nat (length (vh w)) :: 32 word))"
    by (simp add: PutUint32_def)
  from 2 l4 have 3: "PutUint32 (word_of_nat (length (vh v))) = PutUint32 (word_of_nat (length (vh w)))"
    and 4: "vh v @ r = vh w @ s"
    by simp_all
  from 3 have "(word_of_nat (length (vh v)) :: 32 word) = word_of_nat (length (vh w))"
    by (rule PutUint32_inj)
  with assms(2,3) have "length (vh v) = length (vh w)"
    by (intro word_of_nat_32_inj)
  with 4 have "vh v = vh w" "r = s" by simp_all
  with 1 show ?thesis by (simp add: PutUint16_inj)
qed

lemma hash_entries_decode:
  assumes "concat (map (\<lambda>object. hashEntry vh object (gp object)) ks)
         = concat (map (\<lambda>object. hashEntry vh object (gq object)) ks')"
    and "\<forall>object. length (vh (gp object)) < 2 ^ 32 \<and> length (vh (gq object)) < 2 ^ 32"
  shows "ks = ks' \<and> (\<forall>object \<in> set ks. vh (gp object) = vh (gq object))"
  using assms(1)
proof (induction ks arbitrary: ks')
  case Nil
  show ?case
  proof (cases ks')
    case Nil
    then show ?thesis by simp
  next
    case (Cons k' rest)
    with Nil.prems have "length (hashEntry vh k' (gq k')) = 0" by simp
    with hashEntry_length [of vh k' "gq k'"] show ?thesis by simp
  qed
next
  case (Cons k ks)
  show ?case
  proof (cases ks')
    case Nil
    with Cons.prems have "length (hashEntry vh k (gp k)) = 0" by simp
    with hashEntry_length [of vh k "gp k"] show ?thesis by simp
  next
    case c: (Cons k' rest)
    with Cons.prems have "hashEntry vh k (gp k) @ concat (map (\<lambda>object. hashEntry vh object (gp object)) ks)
        = hashEntry vh k' (gq k') @ concat (map (\<lambda>object. hashEntry vh object (gq object)) rest)"
      by simp
    then have d: "k = k' \<and> vh (gp k) = vh (gq k')
        \<and> concat (map (\<lambda>object. hashEntry vh object (gp object)) ks)
            = concat (map (\<lambda>object. hashEntry vh object (gq object)) rest)"
      using assms(2) by (intro hashEntry_decode) simp_all
    with Cons.IH [of rest] have "ks = rest \<and> (\<forall>object \<in> set ks. vh (gp object) = vh (gq object))"
      by simp
    with d c show ?thesis by auto
  qed
qed

lemma Hash_eq_getVals:
  assumes "Hash vh p = Hash vh q"
    and "\<forall>object. length (vh (getVals p object)) < 2 ^ 32 \<and> length (vh (getVals q object)) < 2 ^ 32"
    and "\<forall>object. vh (getVals p object) = vh (getVals q object) \<longrightarrow> getVals p object = getVals q object"
  shows "getVals p object = getVals q object"
proof -
  from assms(1) have "concat (map (\<lambda>object. hashEntry vh object (getVals p object)) (nonemptyKeys p))
         = concat (map (\<lambda>object. hashEntry vh object (getVals q object)) (nonemptyKeys q))"
    by (simp add: Hash_nonemptyKeys)
  with assms(2) have k: "nonemptyKeys p = nonemptyKeys q"
    and h: "\<forall>object \<in> set (nonemptyKeys p). vh (getVals p object) = vh (getVals q object)"
    using hash_entries_decode [of vh "getVals p" "nonemptyKeys p" "getVals q" "nonemptyKeys q"]
    by simp_all
  show ?thesis
  proof (cases "object \<in> set (nonemptyKeys p)")
    case True
    with h assms(3) show ?thesis by simp
  next
    case False
    with k have "object \<notin> set (nonemptyKeys p)" "object \<notin> set (nonemptyKeys q)" by simp_all
    then show ?thesis by (simp add: nonemptyKeys_props)
  qed
qed

lemma Add_commute:
  assumes "A \<noteq> B"
  shows "Add hvt (Add hvt p A x m) B y n = Add hvt (Add hvt p B y n) A x m"
  using assms
  by (intro mapping_eqI) (auto simp: lookup_Add getVals_def)

lemma getVals_Add:
  "getVals (Add hvt p object v appendMode) object' =
     (if object' = object \<and> hvt object v
      then (if appendMode
            then getVals p object @ [\<lparr>Value = v, Binding = ValueBindingStrong\<rparr>]
            else \<lparr>Value = v, Binding = ValueBindingStrong\<rparr> # getVals p object)
      else getVals p object')"
  by (simp add: Add_def addWithBinding_def getVals_AddList)

lemma getVals_NewPattern: "getVals NewPattern object = []"
  by (simp add: getVals_def NewPattern_def)

lemma Hash_patXY:
  "Hash exampleListHash patXY
     = [0, 1, 0, 0, 0, 2, 0x78, 0, 0, 2, 0, 0, 0, 2, 0x79, 0]"
  by code_simp

text \<open>
  C1, as stated, fails: a pattern that holds the empty list under an object (what
  \<open>AddList\<close> with an empty list makes of the empty pattern) has the hash of the empty
  pattern, and not the same set of objects.
\<close>

theorem Hash_empty_list_counterexample:
  "Hash exampleListHash emptyListPattern = Hash exampleListHash NewPattern
   \<and> Mapping.lookup emptyListPattern 1 = Some []
   \<and> Mapping.lookup NewPattern 1 = None
   \<and> Mapping.keys emptyListPattern \<noteq> Mapping.keys NewPattern"
proof -
  have 1: "Mapping.lookup emptyListPattern 1 = Some []"
    by (simp add: emptyListPattern_def lookup_AddList getVals_def NewPattern_def)
  have 2: "Mapping.lookup NewPattern 1 = None"
    by (simp add: NewPattern_def)
  have "\<forall>object. getVals emptyListPattern object = getVals NewPattern object"
    by (simp add: emptyListPattern_def getVals_AddList)
  then have 3: "Hash exampleListHash emptyListPattern = Hash exampleListHash NewPattern"
    by (rule Hash_cong)
  from 1 2 have "1 \<in> Mapping.keys emptyListPattern" "1 \<notin> Mapping.keys NewPattern"
    by (simp_all add: keys_dom_lookup domIff)
  then have "Mapping.keys emptyListPattern \<noteq> Mapping.keys NewPattern" by blast
  with 1 2 3 show ?thesis by simp
qed

text \<open>
  C1, amended.  Take an object that is absent and an object that holds the empty list
  for the same, let the hashes of the value lists be shorter than \<open>2 ^ 32\<close> bytes and
  let the hash of value lists tell the list of \<open>P\<close> from the list of \<open>Q\<close> at every
  object where the two differ.  Then \<open>P\<close> and \<open>Q\<close> have the same hash if and only if
  they hold the same value list, in the same order, at every object.  The order in which
  different objects were added does not matter: adding \<open>x\<close> under \<open>A\<close> and then \<open>y\<close>
  under another object \<open>B\<close>, or first \<open>y\<close> under \<open>B\<close> and then \<open>x\<close> under \<open>A\<close>, gives
  the same pattern and the same hash.
\<close>

theorem Hash_eq_iff_same_lists:
  assumes "\<forall>object. length (valueList_Hash (getVals P object)) < 2 ^ 32
             \<and> length (valueList_Hash (getVals Q object)) < 2 ^ 32"
    and "\<forall>object. valueList_Hash (getVals P object) = valueList_Hash (getVals Q object)
             \<longrightarrow> getVals P object = getVals Q object"
  shows "(Hash valueList_Hash P = Hash valueList_Hash Q
            \<longleftrightarrow> (\<forall>object. getVals P object = getVals Q object))
       \<and> (A \<noteq> B \<longrightarrow>
            Hash valueList_Hash (Add hasValidType (Add hasValidType NewPattern A x True) B y True)
          = Hash valueList_Hash (Add hasValidType (Add hasValidType NewPattern B y True) A x True))"
proof (intro conjI iffI allI impI)
  fix object assume "Hash valueList_Hash P = Hash valueList_Hash Q"
  then show "getVals P object = getVals Q object"
    using assms by (rule Hash_eq_getVals)
next
  assume "\<forall>object. getVals P object = getVals Q object"
  then show "Hash valueList_Hash P = Hash valueList_Hash Q"
    by (rule Hash_cong)
next
  assume "A \<noteq> B"
  then show "Hash valueList_Hash (Add hasValidType (Add hasValidType NewPattern A x True) B y True)
          = Hash valueList_Hash (Add hasValidType (Add hasValidType NewPattern B y True) A x True)"
    by (simp add: Add_commute)
qed

theorem Hash_eq_iff_same_lists_witness:
  "(\<forall>object. length (exampleListHash (getVals patXY object)) < 2 ^ 32
             \<and> length (exampleListHash (getVals patXZ object)) < 2 ^ 32)
   \<and> getVals patXY 2 \<noteq> getVals patXZ 2
   \<and> exampleListHash (getVals patXY 2) \<noteq> exampleListHash (getVals patXZ 2)
   \<and> Hash exampleListHash patXY \<noteq> Hash exampleListHash patXZ
   \<and> Hash exampleListHash patXY = Hash exampleListHash patYX"
proof -
  have g: "getVals patXY 2 \<noteq> getVals patXZ 2"
    "exampleListHash (getVals patXY 2) \<noteq> exampleListHash (getVals patXZ 2)"
    by (simp_all add: patXY_def patXZ_def getVals_Add getVals_NewPattern acceptAll_def
          exampleListHash_def)
  have b: "\<forall>object. length (exampleListHash (getVals patXY object)) < 2 ^ 32
             \<and> length (exampleListHash (getVals patXZ object)) < 2 ^ 32"
    by (simp add: patXY_def patXZ_def getVals_Add getVals_NewPattern acceptAll_def
          exampleListHash_def)
  have i: "\<forall>object. exampleListHash (getVals patXY object) = exampleListHash (getVals patXZ object)
             \<longrightarrow> getVals patXY object = getVals patXZ object"
    by (simp add: patXY_def patXZ_def getVals_Add getVals_NewPattern acceptAll_def
          exampleListHash_def)
  have d: "\<not> (\<forall>object. getVals patXY object = getVals patXZ object)"
  proof
    assume "\<forall>object. getVals patXY object = getVals patXZ object"
    then have "getVals patXY 2 = getVals patXZ 2" by blast
    then show False
      by (simp add: patXY_def patXZ_def getVals_Add getVals_NewPattern acceptAll_def)
  qed
  have n: "(1 :: Object) \<noteq> 2" by simp
  have "(Hash exampleListHash patXY = Hash exampleListHash patXZ
            \<longleftrightarrow> (\<forall>object. getVals patXY object = getVals patXZ object))
       \<and> ((1 :: Object) \<noteq> 2 \<longrightarrow> Hash exampleListHash patXY = Hash exampleListHash patYX)"
    unfolding patXY_def patYX_def
    using b [unfolded patXY_def] i [unfolded patXY_def]
    by (rule Hash_eq_iff_same_lists)
  with d n have "Hash exampleListHash patXY \<noteq> Hash exampleListHash patXZ"
    and "Hash exampleListHash patXY = Hash exampleListHash patYX"
    by blast+
  with b g show ?thesis by blast
qed

section \<open>Results: Graphite language features\<close>

lemma applyValues_sorted: "sorted (map Id_fv (applyValues lr features))"
  by (simp add: applyValues_def)

lemma applyValues_members:
  assumes "fv \<in> set (applyValues lr features)"
  shows "\<exists>s \<in> set (settings lr). \<exists>flags. findFeature features (FeatureId s) = Some flags
           \<and> fv = \<lparr>Id_fv = zeroToSpace (FeatureId s), Flags_fv = flags, Value_fv = Value_ls s\<rparr>"
  using assms by (auto simp: applyValues_def split: option.splits)

text \<open>
  C10.  When some language record has the space-normalised language code,
  \<open>GetFeatures\<close> returns the values of the first such record: the list is sorted by
  feature identifier, and each of its elements comes from a setting of that record whose
  feature is found in the feature table.
\<close>

theorem GetFeatures_matching_record:
  assumes "\<exists>rec \<in> set si. langcode rec = spaceToZero langname"
  shows "\<exists>rec \<in> set si. langcode rec = spaceToZero langname
           \<and> GetFeatures si langname features = applyValues rec features
           \<and> sorted (map Id_fv (GetFeatures si langname features))
           \<and> (\<forall>fv \<in> set (GetFeatures si langname features).
                 \<exists>s \<in> set (settings rec). \<exists>flags.
                   findFeature features (FeatureId s) = Some flags
                   \<and> fv = \<lparr>Id_fv = zeroToSpace (FeatureId s), Flags_fv = flags,
                           Value_fv = Value_ls s\<rparr>)"
proof -
  from assms have "find (\<lambda>rec. langcode rec = spaceToZero langname) si \<noteq> None"
    by (auto simp: find_None_iff)
  then obtain rec where f: "find (\<lambda>rec. langcode rec = spaceToZero langname) si = Some rec"
    by auto
  then have r: "rec \<in> set si" "langcode rec = spaceToZero langname"
    by (auto simp: find_Some_iff)
  from f have g: "GetFeatures si langname features = applyValues rec features"
    by (simp add: GetFeatures_def)
  show ?thesis
    using r g applyValues_sorted [of rec features] applyValues_members [of _ rec features]
    by (intro bexI [of _ rec]) auto
qed

theorem GetFeatures_matching_record_witness:
  "(\<exists>rec \<in> set exampleSill. langcode rec = spaceToZero 0x656E2020)
   \<and> sorted (map Id_fv (GetFeatures exampleSill 0x656E2020 exampleFeat))
   \<and> GetFeatures exampleSill 0x656E2020 exampleFeat =
       [\<lparr>Id_fv = 0x00000001, Flags_fv = 0, Value_fv = 3\<rparr>,
        \<lparr>Id_fv = 0x6C696700, Flags_fv = 0x8000, Value_fv = 1\<rparr>]"
proof -
  have h: "\<exists>rec \<in> set exampleSill. langcode rec = spaceToZero 0x656E2020"
    by (simp add: exampleSill_def spaceToZero_def)
  have s: "sorted (map Id_fv (GetFeatures exampleSill 0x656E2020 exampleFeat))"
    using GetFeatures_matching_record [OF h, of exampleFeat] by blast
  have e: "GetFeatures exampleSill 0x656E2020 exampleFeat =
       [\<lparr>Id_fv = 0x00000001, Flags_fv = 0, Value_fv = 3\<rparr>,
        \<lparr>Id_fv = 0x6C696700, Flags_fv = 0x8000, Value_fv = 1\<rparr>]"
    by code_simp
  from h s e show ?thesis by blast
qed

section \<open>Results: Myanmar reordering\<close>

lemma set_positions_Suc:
  "i \<le> e \<Longrightarrow> set_positions info i (Suc e) v
     = (set_positions info i e v)[e := (set_positions info i e v ! e)\<lparr>Aux2 := v\<rparr>]"
  by (simp add: set_positions_def)

lemma set_positions_empty: "e \<le> i \<Longrightarrow> set_positions info i e v = info"
  by (simp add: set_positions_def)

lemma set_positions_length: "length (set_positions info i e v) = length info"
proof (induction e)
  case 0
  then show ?case by (simp add: set_positions_empty)
next
  case (Suc e)
  show ?case
  proof (cases "i \<le> e")
    case True
    with Suc show ?thesis by (simp add: set_positions_Suc)
  next
    case False
    then show ?thesis by (simp add: set_positions_empty)
  qed
qed

lemma set_positions_nth:
  "j < length info \<Longrightarrow>
     set_positions info i e v ! j
       = (if i \<le> j \<and> j < e then (info ! j)\<lparr>Aux2 := v\<rparr> else info ! j)"
proof (induction e arbitrary: j)
  case 0
  then show ?case by (simp add: set_positions_empty)
next
  case (Suc e)
  show ?case
  proof (cases "i \<le> e")
    case False
    then show ?thesis by (auto simp: set_positions_empty)
  next
    case True
    show ?thesis
    proof (cases "j = e")
      case True
      with Suc.prems have "set_positions info i e v ! e = info ! e"
        using Suc.IH [of e] by simp
      with True \<open>i \<le> e\<close> Suc.prems show ?thesis
        by (simp add: set_positions_Suc set_positions_length)
    next
      case False
      with \<open>i \<le> e\<close> Suc.prems Suc.IH [of j] show ?thesis
        by (auto simp: set_positions_Suc)
    qed
  qed
qed

lemma set_positions_Codepoint: "map Codepoint (set_positions info i e v) = map Codepoint info"
  by (rule nth_equalityI) (auto simp: set_positions_length set_positions_nth)

lemma set_positions_AuxCategory:
  "map AuxCategory (set_positions info i e v) = map AuxCategory info"
  by (rule nth_equalityI) (auto simp: set_positions_length set_positions_nth)

lemma reorder_loop_done: "e \<le> i \<Longrightarrow> reorder_loop M e i pos info = info"
  by (subst reorder_loop.simps) simp

lemma sort_key_same_key:
  assumes "\<forall>x \<in> set xs. f x = c"
  shows "sort_key f xs = xs"
proof -
  from assms have "map f xs = replicate (length xs) c"
    by (induction xs) auto
  then have "sorted (map f xs)"
    by simp
  then show ?thesis
    by (rule sort_key_id_if_sorted)
qed

lemma Sort_same_tag:
  assumes "start < e \<longrightarrow> e \<le> length info"
    and "\<forall>j. start \<le> j \<and> j < e \<longrightarrow> Aux2 (info ! j) = c"
  shows "Sort info start e = info"
proof (cases "start < e")
  case False
  then show ?thesis by (simp add: Sort_def)
next
  case True
  have "\<forall>x \<in> set (take (e - start) (drop start info)). unat (Aux2 x) = unat c"
  proof
    fix x assume "x \<in> set (take (e - start) (drop start info))"
    then obtain k where k: "k < length (take (e - start) (drop start info))"
        "x = take (e - start) (drop start info) ! k"
      by (auto simp: in_set_conv_nth)
    with assms True have "x = info ! (start + k)" "start + k < e"
      by auto
    with assms show "unat (Aux2 x) = unat c" by simp
  qed
  then have "sort_key (\<lambda>a. unat (Aux2 a)) (take (e - start) (drop start info))
               = take (e - start) (drop start info)"
    by (rule sort_key_same_key)
  moreover have "take start info @ take (e - start) (drop start info) @ drop e info = info"
  proof -
    have "drop e info = drop (e - start) (drop start info)"
      using True by simp
    then show ?thesis by (simp only: append_take_drop_id)
  qed
  ultimately show ?thesis using True by (simp add: Sort_def)
qed

lemma initialReordering_result:
  assumes "end' \<le> length info"
    and "e2 = (if start + 3 \<le> end' \<and> AuxCategory (info ! start) = OT_Ra M
      \<and> AuxCategory (info ! (start + 1)) = OT_As \<and> AuxCategory (info ! (start + 2)) = OT_H M
      then start + 3 else start)"
  shows "initialReorderingConsonantSyllable M info start end'
     = Some (Sort (set_positions (set_positions info start e2 (POS_AFTER_MAIN M)) e2
          (case find (\<lambda>i. is_consonant M (info ! i)) [e2..<end'] of
                       Some i \<Rightarrow> i | None \<Rightarrow> start) (POS_PRE_C M)) start e2)"
proof -
  define isReph where "isReph \<longleftrightarrow> start + 3 \<le> end' \<and> AuxCategory (info ! start) = OT_Ra M
      \<and> AuxCategory (info ! (start + 1)) = OT_As \<and> AuxCategory (info ! (start + 2)) = OT_H M"
  have "\<not> length info < end'" using assms(1) by simp
  then show ?thesis
    unfolding initialReorderingConsonantSyllable_def Let_def assms(2)
    unfolding isReph_def [symmetric]
    by (cases isReph) (simp_all add: reorder_loop_done)
qed

text \<open>
  C3 fails on the code.  Whatever the declarations \<open>M\<close> are, and for every range inside
  the buffer, \<open>initialReorderingConsonantSyllable\<close> returns the glyphs in the order in
  which it found them: no glyph is moved (only \<open>Aux2\<close> can change).
\<close>

theorem initialReorderingConsonantSyllable_keeps_order:
  assumes "end' \<le> length info"
  shows "\<exists>info'. initialReorderingConsonantSyllable M info start end' = Some info'
           \<and> map Codepoint info' = map Codepoint info
           \<and> map AuxCategory info' = map AuxCategory info"
proof -
  define e2 where "e2 = (if start + 3 \<le> end' \<and> AuxCategory (info ! start) = OT_Ra M
      \<and> AuxCategory (info ! (start + 1)) = OT_As \<and> AuxCategory (info ! (start + 2)) = OT_H M
      then start + 3 else start)"
  define base where "base = (case find (\<lambda>i. is_consonant M (info ! i)) [e2..<end'] of
                       Some i \<Rightarrow> i | None \<Rightarrow> start)"
  define info1 where "info1 = set_positions info start e2 (POS_AFTER_MAIN M)"
  define info2 where "info2 = set_positions info1 e2 base (POS_PRE_C M)"
  have e2: "start \<le> e2" "start < e2 \<longrightarrow> e2 \<le> length info"
    using assms by (auto simp: e2_def)
  have res: "initialReorderingConsonantSyllable M info start end' = Some (Sort info2 start e2)"
    unfolding info2_def info1_def base_def
    using assms e2_def by (rule initialReordering_result)
  have len: "length info2 = length info" "length info1 = length info"
    by (simp_all add: info2_def info1_def set_positions_length)
  have "\<forall>j. start \<le> j \<and> j < e2 \<longrightarrow> Aux2 (info2 ! j) = POS_AFTER_MAIN M"
    using e2 by (auto simp: info2_def info1_def set_positions_nth set_positions_length)
  with e2 len have "Sort info2 start e2 = info2"
    by (intro Sort_same_tag) auto
  with res have "initialReorderingConsonantSyllable M info start end' = Some info2" by simp
  moreover have "map Codepoint info2 = map Codepoint info"
    by (simp add: info2_def info1_def set_positions_Codepoint)
  moreover have "map AuxCategory info2 = map AuxCategory info"
    by (simp add: info2_def info1_def set_positions_AuxCategory)
  ultimately show ?thesis by blast
qed

theorem initialReorderingConsonantSyllable_keeps_order_witness:
  "(5::nat) \<le> length rephaSyllable
   \<and> (\<exists>info'. initialReorderingConsonantSyllable harfbuzzDecls rephaSyllable 0 5 = Some info'
         \<and> map Codepoint info' = [0x101B, 0x103A, 0x1039, 0x1000, 0x102F])"
  using initialReorderingConsonantSyllable_keeps_order [of 5 rephaSyllable harfbuzzDecls 0]
  by (auto simp: rephaSyllable_def)

lemma repha_eval:
  "initialReorderingConsonantSyllable harfbuzzDecls rephaSyllable 0 5 =
     Some [\<lparr>Codepoint = 0x101B, AuxCategory = 16, Aux2 = 5\<rparr>,
           \<lparr>Codepoint = 0x103A, AuxCategory = 18, Aux2 = 5\<rparr>,
           \<lparr>Codepoint = 0x1039, AuxCategory = 4, Aux2 = 5\<rparr>,
           \<lparr>Codepoint = 0x1000, AuxCategory = 1, Aux2 = 0x10\<rparr>,
           \<lparr>Codepoint = 0x102F, AuxCategory = 27, Aux2 = 0x10\<rparr>]"
  by code_simp

section \<open>Results: the admissibility invariant\<close>

lemma validPattern_iff:
  "validPattern hvt p \<longleftrightarrow> (\<forall>object e. e \<in> set (getVals p object) \<longrightarrow> hvt object (Value e))"
proof -
  have fin: "finite (Mapping.keys p)" by simp
  have out: "getVals p object = []" if "object \<notin> Mapping.keys p" for object
    using that by (simp add: getVals_def keys_dom_lookup domIff)
  have "validPattern hvt p \<longleftrightarrow>
      (\<forall>object \<in> Mapping.keys p. \<forall>e \<in> set (getVals p object). hvt object (Value e))"
    using fin by (simp add: validPattern_def sortedKeys_def list_all_iff)
  also have "\<dots> \<longleftrightarrow> (\<forall>object e. e \<in> set (getVals p object) \<longrightarrow> hvt object (Value e))"
    using out by fastforce
  finally show ?thesis .
qed

lemma valid_NewPattern: "validPattern hvt NewPattern"
  by (simp add: validPattern_iff NewPattern_def getVals_def)

lemma valid_AddList:
  assumes "validPattern hvt p"
  shows "validPattern hvt (AddList hvt p object list appendMode)"
  using assms
  by (auto simp: validPattern_iff getVals_AddList split: if_splits)

lemma valid_addWithBinding:
  "validPattern hvt p \<Longrightarrow> validPattern hvt (addWithBinding hvt p object v b appendMode)"
  by (simp add: addWithBinding_def valid_AddList)

lemma valid_Add: "validPattern hvt p \<Longrightarrow> validPattern hvt (Add hvt p object v appendMode)"
  by (simp add: Add_def valid_addWithBinding)

lemma valid_AddBool: "validPattern hvt p \<Longrightarrow> validPattern hvt (AddBool hvt p object b)"
  by (simp add: AddBool_def valid_Add)

lemma valid_AddInteger: "validPattern hvt p \<Longrightarrow> validPattern hvt (AddInteger hvt p object i)"
  by (simp add: AddInteger_def valid_Add)

lemma valid_AddFloat: "validPattern hvt p \<Longrightarrow> validPattern hvt (AddFloat hvt p object f)"
  by (simp add: AddFloat_def valid_Add)

lemma valid_AddString: "validPattern hvt p \<Longrightarrow> validPattern hvt (AddString hvt p object s)"
  by (simp add: AddString_def valid_Add)

lemma valid_Del: "validPattern hvt p \<Longrightarrow> validPattern hvt (Del p object)"
  by (auto simp: validPattern_iff getVals_Del split: if_splits)

lemma valid_addWithTable:
  assumes "validPattern hvt p"
  shows "validPattern hvt (addWithTable hvt p object list append')"
proof -
  have "\<forall>e \<in> set (valueList_insert hvt (getVals p object) append' list object).
          hvt object (Value e)"
  proof (cases "find (\<lambda>value. \<not> hvt object (Value value)) list")
    case None
    then have "\<forall>e \<in> set list. hvt object (Value e)" by (simp add: find_invalid_None)
    with None assms show ?thesis
      by (auto simp: valueList_insert_def validPattern_iff)
  next
    case (Some a)
    with assms show ?thesis
      by (auto simp: valueList_insert_def validPattern_iff)
  qed
  then show ?thesis
    using assms
    by (auto simp: validPattern_iff getVals_addWithTable split: if_splits)
qed

lemma valid_BuildPattern: "validPattern hvt (BuildPattern hvt elements)"
proof -
  have "validPattern hvt p \<Longrightarrow>
      validPattern hvt (fold (\<lambda>el p. Add hvt p (fst el) (snd el) True) elements p)" for p
    by (induction elements arbitrary: p) (simp_all add: valid_Add)
  then show ?thesis by (simp add: BuildPattern_def valid_NewPattern)
qed

lemma valid_append_Pattern:
  assumes "validPattern hvt p"
  shows "validPattern hvt (append_Pattern hvt p s)"
proof -
  have inner: "validPattern hvt q \<Longrightarrow>
      validPattern hvt (fold (\<lambda>v p. addWithBinding hvt p object (Value v) (Binding v) True) vs q)"
    for q object and vs :: valueList
    by (induction vs arbitrary: q) (simp_all add: valid_addWithBinding)
  have "validPattern hvt q \<Longrightarrow>
      validPattern hvt (fold (\<lambda>object p.
        fold (\<lambda>v p. addWithBinding hvt p object (Value v) (Binding v) True)
          (getVals s object) p) ks q)" for q ks
    by (induction ks arbitrary: q) (simp_all add: inner)
  with assms show ?thesis by (simp add: append_Pattern_def)
qed

lemma valid_defaults:
  assumes "validPattern hvt p"
  shows "validPattern hvt (defaultInteger hvt object i p)"
    and "validPattern hvt (defaultBool hvt boolDef p)"
    and "validPattern hvt (defaultString hvt object s p)"
    and "validPattern hvt (defaultPrgname hvt object s p)"
    and "validPattern hvt (defaultLang hvt object namelang lang p)"
  using assms
  by (simp_all add: defaultInteger_def defaultBool_def defaultString_def defaultPrgname_def
        defaultLang_def Let_def valid_AddInteger valid_AddBool valid_AddString valid_Add
        valid_addWithBinding)

lemma valid_sd_all:
  assumes "validPattern hvt p"
  shows "validPattern hvt (sd_all K hvt p)"
proof -
  have 1: "validPattern hvt (sd_pre K hvt p)"
    unfolding sd_pre_def boolDefaults_def fold_simps id_apply comp_apply
    by (intro valid_defaults assms)
  have 2: "validPattern hvt (sd_size K hvt (sd_pre K hvt p))"
    unfolding sd_size_def Let_def
    by (simp only: split: if_split) (intro conjI impI valid_AddFloat valid_Del 1)
  have 3: "validPattern hvt (sd_mid K hvt (sd_size K hvt (sd_pre K hvt p)))"
    unfolding sd_mid_def by (intro valid_defaults 2)
  show ?thesis
    unfolding sd_all_def sd_lang_def Let_def by (intro valid_defaults 3)
qed

text \<open>
  C4.  A pattern in which every stored value is admissible for its object stays such a
  pattern under every operation that stores values: \<open>AddList\<close>, \<open>Add\<close>,
  \<open>addWithBinding\<close>, \<open>AddBool\<close>, \<open>AddInteger\<close>, \<open>AddFloat\<close>, \<open>AddString\<close>,
  \<open>append\<close>, \<open>addWithTable\<close> and \<open>SubstituteDefault\<close>, and under \<open>Del\<close> and
  \<open>Duplicate\<close>; the empty pattern and every pattern of \<open>BuildPattern\<close> are such
  patterns.
\<close>

theorem validPattern_preserved:
  assumes "validPattern hasValidType p"
  shows "validPattern hasValidType NewPattern
       \<and> validPattern hasValidType (BuildPattern hasValidType elements)
       \<and> validPattern hasValidType (AddList hasValidType p object list appendMode)
       \<and> validPattern hasValidType (Add hasValidType p object v appendMode)
       \<and> validPattern hasValidType (addWithBinding hasValidType p object v binding appendMode)
       \<and> validPattern hasValidType (AddBool hasValidType p object b)
       \<and> validPattern hasValidType (AddInteger hasValidType p object i)
       \<and> validPattern hasValidType (AddFloat hasValidType p object f)
       \<and> validPattern hasValidType (AddString hasValidType p object s)
       \<and> validPattern hasValidType (append_Pattern hasValidType p other)
       \<and> validPattern hasValidType (addWithTable hasValidType p object list appendMode)
       \<and> validPattern hasValidType (Del p object)
       \<and> validPattern hasValidType (Duplicate p)
       \<and> (\<exists>p'. SubstituteDefault K hasValidType p = Some p' \<and> validPattern hasValidType p')"
  using assms
  by (simp add: valid_NewPattern valid_BuildPattern valid_AddList valid_Add valid_addWithBinding
        valid_AddBool valid_AddInteger valid_AddFloat valid_AddString valid_append_Pattern
        valid_addWithTable valid_Del Duplicate_def SubstituteDefault_sd_all valid_sd_all)

theorem validPattern_preserved_witness:
  "validPattern stringsOnly pat1
   \<and> validPattern stringsOnly (AddList stringsOnly pat1 1
        [\<lparr>Value = String ''y'', Binding = ValueBindingWeak\<rparr>] False)
   \<and> Mapping.lookup (AddList stringsOnly pat1 1
        [\<lparr>Value = String ''y'', Binding = ValueBindingWeak\<rparr>] False) 1
       = Some [\<lparr>Value = String ''y'', Binding = ValueBindingWeak\<rparr>,
               \<lparr>Value = String ''x'', Binding = ValueBindingStrong\<rparr>]
   \<and> validPattern stringsOnly (addWithTable stringsOnly pat1 2
        [\<lparr>Value = IntVal 3, Binding = ValueBindingStrong\<rparr>] True)
   \<and> Mapping.lookup (addWithTable stringsOnly pat1 2
        [\<lparr>Value = IntVal 3, Binding = ValueBindingStrong\<rparr>] True) 2 = Some []"
proof -
  have v: "validPattern stringsOnly pat1"
    by (simp add: validPattern_iff pat1_def getVals_def lookup_update' stringsOnly_def)
  have e: "Mapping.lookup (AddList stringsOnly pat1 1
        [\<lparr>Value = String ''y'', Binding = ValueBindingWeak\<rparr>] False) 1
       = Some [\<lparr>Value = String ''y'', Binding = ValueBindingWeak\<rparr>,
               \<lparr>Value = String ''x'', Binding = ValueBindingStrong\<rparr>]"
    by (simp add: lookup_AddList getVals_def pat1_def stringsOnly_def lookup_update')
  have t: "Mapping.lookup (addWithTable stringsOnly pat1 2
        [\<lparr>Value = IntVal 3, Binding = ValueBindingStrong\<rparr>] True) 2 = Some []"
    by (simp add: addWithTable_def pat1_def stringsOnly_def valueList_insert_def lookup_update')
  from validPattern_preserved [OF v, of _ 1 "[\<lparr>Value = String ''y'', Binding = ValueBindingWeak\<rparr>]" False]
    validPattern_preserved [OF v, of _ 2 "[\<lparr>Value = IntVal 3, Binding = ValueBindingStrong\<rparr>]" True]
    v e t
  show ?thesis by blast
qed

section \<open>Results: insertion of values that an object does not accept\<close>

lemma AddList_rejects:
  assumes "e \<in> set list" "\<not> hvt object (Value e)"
  shows "AddList hvt p object list appendMode = p"
proof -
  from assms have "find (\<lambda>value. \<not> hvt object (Value value)) list \<noteq> None"
    by (auto simp: find_None_iff)
  then show ?thesis by (auto simp: AddList_def)
qed

lemma AddList_logged_rejects:
  assumes "e \<in> set list" "\<not> hvt object (Value e)"
  shows "\<exists>w. AddList_logged hvt object list = Some (object, w) \<and> \<not> hvt object w
           \<and> w \<in> Value ` set list"
proof -
  from assms have "find (\<lambda>value. \<not> hvt object (Value value)) list \<noteq> None"
    by (auto simp: find_None_iff)
  then obtain x where x: "find (\<lambda>value. \<not> hvt object (Value value)) list = Some x" by auto
  then have "\<not> hvt object (Value x)" "x \<in> set list"
    by (auto simp: find_Some_iff)
  with x show ?thesis by (auto simp: AddList_logged_def)
qed

text \<open>
  C5.  Let the object not accept the value \<open>v\<close>.  Then \<open>Add\<close> of \<open>v\<close> returns the pattern
  as it was and logs \<open>v\<close>; \<open>AddList\<close> of any list that holds \<open>v\<close> returns the pattern as it
  was and logs one value of the list that the object does not accept.  Both are total
  functions with no error result: there is no panic and no error to return.
\<close>

theorem Add_type_mismatch_is_noop:
  assumes "\<not> hasValidType object v"
  shows "Add hasValidType p object v appendMode = p
       \<and> AddList_logged hasValidType object [\<lparr>Value = v, Binding = ValueBindingStrong\<rparr>]
           = Some (object, v)
       \<and> (\<forall>list. v \<in> Value ` set list \<longrightarrow>
             AddList hasValidType p object list appendMode = p
             \<and> (\<exists>w. AddList_logged hasValidType object list = Some (object, w)
                    \<and> \<not> hasValidType object w \<and> w \<in> Value ` set list))"
proof (intro conjI allI impI)
  show "Add hasValidType p object v appendMode = p"
    using assms by (simp add: Add_def addWithBinding_def AddList_def)
  show "AddList_logged hasValidType object [\<lparr>Value = v, Binding = ValueBindingStrong\<rparr>]
          = Some (object, v)"
    using assms by (simp add: AddList_logged_def)
next
  fix list :: valueList assume "v \<in> Value ` set list"
  then obtain e where e: "e \<in> set list" "Value e = v" by auto
  with assms have ne: "\<not> hasValidType object (Value e)" by simp
  show "AddList hasValidType p object list appendMode = p"
    using e(1) ne by (rule AddList_rejects)
  show "\<exists>w. AddList_logged hasValidType object list = Some (object, w)
                    \<and> \<not> hasValidType object w \<and> w \<in> Value ` set list"
    using e(1) ne by (rule AddList_logged_rejects)
qed

theorem Add_type_mismatch_is_noop_witness:
  "\<not> stringsOnly 1 (IntVal 3) \<and> Add stringsOnly NewPattern 1 (IntVal 3) True = NewPattern
   \<and> AddList stringsOnly NewPattern 1
        [\<lparr>Value = String ''x'', Binding = ValueBindingStrong\<rparr>,
         \<lparr>Value = IntVal 3, Binding = ValueBindingWeak\<rparr>] False = NewPattern"
  using Add_type_mismatch_is_noop [of stringsOnly 1 "IntVal 3" NewPattern]
  by (simp add: stringsOnly_def)

section \<open>Results: lookups\<close>

text \<open>
  C6, as stated, fails for the accessors that return a pair of a value and a flag:
  \<open>GetBool\<close> returns the same pair when the object is absent and when the object holds
  a string, so the caller cannot tell "not found" from "found but wrong type".
\<close>

theorem GetBool_absent_or_wrong_type_counterexample:
  "GetAt NewPattern 1 0 = Some (NilValue, ResultNoMatch)
   \<and> GetAt pat1 1 0 = Some (String ''x'', ResultMatch)
   \<and> GetBool NewPattern 1 = GetBool pat1 1"
  by (simp add: GetBool_def GetAt_def NewPattern_def pat1_def)

text \<open>
  C6, amended.  For an index \<open>id \<ge> 0\<close>, \<open>GetAt\<close> returns (it does not panic): "no match"
  when the object is absent, "no id" when the index is out of range, the value with
  "match" otherwise.  \<open>GetAtString\<close> keeps these results and returns "type mismatch" for
  a value that is not a string, so that "not found" and "found but wrong type" differ.
  The accessors \<open>GetBool\<close>, \<open>GetString\<close>, \<open>GetInt\<close>, \<open>GetFloat\<close>, \<open>GetMatrix\<close> and
  \<open>GetCharset\<close> return the zero value with the flag false in both cases: whenever the
  first value of the object is not a value of their type.
\<close>

theorem GetAt_lookup_outcomes:
  assumes "0 \<le> id'"
  shows "GetAt p object id' = Some (case Mapping.lookup p object of
            None \<Rightarrow> (NilValue, ResultNoMatch)
          | Some e \<Rightarrow> if nat id' < length e then (Value (e ! nat id'), ResultMatch)
                      else (NilValue, ResultNoId))
       \<and> GetAtString p object id' = Some (case Mapping.lookup p object of
            None \<Rightarrow> ('''', ResultNoMatch)
          | Some e \<Rightarrow> if nat id' < length e
                      then (case Value (e ! nat id') of String out \<Rightarrow> (out, ResultMatch)
                            | _ \<Rightarrow> ('''', ResultTypeMismatch))
                      else ('''', ResultNoId))
       \<and> ((\<forall>b. GetAt p object 0 \<noteq> Some (Bool b, ResultMatch))
            \<longrightarrow> GetBool p object = Some (0, False))
       \<and> ((\<forall>s. GetAt p object 0 \<noteq> Some (String s, ResultMatch))
            \<longrightarrow> GetString p object = Some ('''', False))
       \<and> ((\<forall>i. GetAt p object 0 \<noteq> Some (IntVal i, ResultMatch))
            \<longrightarrow> GetInt p object = Some (0, False))
       \<and> ((\<forall>f. GetAt p object 0 \<noteq> Some (Float f, ResultMatch))
            \<longrightarrow> GetFloat p object = Some (Finite 0, False))
       \<and> ((\<forall>xx xy yx yy. GetAt p object 0 \<noteq> Some (Matrix xx xy yx yy, ResultMatch))
            \<longrightarrow> GetMatrix p object = Some ((Finite 0, Finite 0, Finite 0, Finite 0), False))
       \<and> ((\<forall>c. GetAt p object 0 \<noteq> Some (Charset c, ResultMatch))
            \<longrightarrow> GetCharset p object = Some ([], False))"
proof (intro conjI)
  show "GetAt p object id' = Some (case Mapping.lookup p object of
            None \<Rightarrow> (NilValue, ResultNoMatch)
          | Some e \<Rightarrow> if nat id' < length e then (Value (e ! nat id'), ResultMatch)
                      else (NilValue, ResultNoId))"
    using assms by (auto simp: GetAt_def split: option.splits)
  then show "GetAtString p object id' = Some (case Mapping.lookup p object of
            None \<Rightarrow> ('''', ResultNoMatch)
          | Some e \<Rightarrow> if nat id' < length e
                      then (case Value (e ! nat id') of String out \<Rightarrow> (out, ResultMatch)
                            | _ \<Rightarrow> ('''', ResultTypeMismatch))
                      else ('''', ResultNoId))"
    by (simp add: GetAtString_def split: option.splits Value.splits)
  show "(\<forall>b. GetAt p object 0 \<noteq> Some (Bool b, ResultMatch))
          \<longrightarrow> GetBool p object = Some (0, False)"
    by (simp add: GetBool_def GetAt_0 split: option.splits list.splits Value.splits)
  show "(\<forall>s. GetAt p object 0 \<noteq> Some (String s, ResultMatch))
          \<longrightarrow> GetString p object = Some ('''', False)"
    by (simp add: GetString_def GetAt_0 split: option.splits list.splits Value.splits)
  show "(\<forall>i. GetAt p object 0 \<noteq> Some (IntVal i, ResultMatch))
          \<longrightarrow> GetInt p object = Some (0, False)"
    by (simp add: GetInt_def GetAt_0 split: option.splits list.splits Value.splits)
  show "(\<forall>f. GetAt p object 0 \<noteq> Some (Float f, ResultMatch))
          \<longrightarrow> GetFloat p object = Some (Finite 0, False)"
    by (simp add: GetFloat_def GetAt_0 split: option.splits list.splits Value.splits)
  show "(\<forall>xx xy yx yy. GetAt p object 0 \<noteq> Some (Matrix xx xy yx yy, ResultMatch))
          \<longrightarrow> GetMatrix p object = Some ((Finite 0, Finite 0, Finite 0, Finite 0), False)"
    by (simp add: GetMatrix_def GetAt_0 split: option.splits list.splits Value.splits)
  show "(\<forall>c. GetAt p object 0 \<noteq> Some (Charset c, ResultMatch))
          \<longrightarrow> GetCharset p object = Some ([], False)"
    by (simp add: GetCharset_def GetAt_0 split: option.splits list.splits Value.splits)
qed

theorem GetAt_lookup_outcomes_witness:
  "(0::int) \<le> 1 \<and> GetAt pat1 1 1 = Some (NilValue, ResultNoId)
   \<and> GetAtString pat1 2 1 = Some ('''', ResultNoMatch)
   \<and> GetAtString pat1 1 0 = Some (''x'', ResultMatch)
   \<and> GetInt pat1 1 = Some (0, False)"
  using GetAt_lookup_outcomes [of 1 pat1 1] GetAt_lookup_outcomes [of 1 pat1 2]
    GetAt_lookup_outcomes [of 0 pat1 1]
  by (simp add: pat1_def GetAt_def)

section \<open>Results: default substitution\<close>

lemma getVals_sd_pre_sizes:
  assumes "distinctObjects K"
  shows "getVals (sd_pre K hvt p) (PIXEL_SIZE K) = getVals p (PIXEL_SIZE K)"
    and "getVals (sd_pre K hvt p) (SIZE K) = getVals p (SIZE K)"
    and "getVals (sd_pre K hvt p) (SCALE K) = getVals p (SCALE K)"
    and "getVals (sd_pre K hvt p) (DPI K) = getVals p (DPI K)"
  using getVals_sd_pre [OF assms] by simp_all

lemma lookup_sd_all_sizes:
  assumes "distinctObjects K"
    and "object = SIZE K \<or> object = SCALE K \<or> object = DPI K \<or> object = PIXEL_SIZE K"
  shows "Mapping.lookup (sd_all K hvt p) object
           = Mapping.lookup (sd_size K hvt (sd_pre K hvt p)) object"
proof -
  note ne = distinctObjects_neq [OF assms(1), simplified]
  from assms(2) have "\<not> (object = FAMILYLANG K \<or> object = STYLELANG K \<or> object = FULLNAMELANG K)"
    using ne by (elim disjE) simp_all
  with assms(2) show ?thesis
    by (simp only: lookup_sd_all [OF assms(1)] if_True if_False)
qed


lemma sd_all_pixel_size:
  assumes "distinctObjects K" "getVals p (PIXEL_SIZE K) \<noteq> []"
  shows "Mapping.lookup (sd_all K hvt p) (SCALE K) = Mapping.lookup p (SCALE K)"
    and "Mapping.lookup (sd_all K hvt p) (DPI K) = Mapping.lookup p (DPI K)"
    and "Mapping.lookup (sd_all K hvt p) (PIXEL_SIZE K) = Mapping.lookup p (PIXEL_SIZE K)"
    and "Mapping.lookup (sd_all K hvt p) (SIZE K)
           = (if hvt (SIZE K) (Float (f64_div (f64_mul (f64_div (firstFloat p (PIXEL_SIZE K) (Finite 0))
                  (firstFloat p (DPI K) (Finite 75))) (Finite 72)) (firstFloat p (SCALE K) (Finite 1))))
              then Some [\<lparr>Value = Float (f64_div (f64_mul (f64_div
                  (firstFloat p (PIXEL_SIZE K) (Finite 0))
                  (firstFloat p (DPI K) (Finite 75))) (Finite 72)) (firstFloat p (SCALE K) (Finite 1))),
                  Binding = ValueBindingStrong\<rparr>]
              else None)"
proof -
  note ne = distinctObjects_neq [OF assms(1), simplified]
  note r = reads_sd_pre [OF assms(1)] getVals_sd_pre_sizes [OF assms(1)]
  show "Mapping.lookup (sd_all K hvt p) (SCALE K) = Mapping.lookup p (SCALE K)"
    using assms(2)
    by (simp add: lookup_sd_all_sizes [OF assms(1)] lookup_sd_size [OF assms(1)] r ne
          lookup_sd_pre [OF assms(1)])
  show "Mapping.lookup (sd_all K hvt p) (DPI K) = Mapping.lookup p (DPI K)"
    using assms(2)
    by (simp add: lookup_sd_all_sizes [OF assms(1)] lookup_sd_size [OF assms(1)] r ne
          lookup_sd_pre [OF assms(1)])
  show "Mapping.lookup (sd_all K hvt p) (PIXEL_SIZE K) = Mapping.lookup p (PIXEL_SIZE K)"
    using assms(2)
    by (simp add: lookup_sd_all_sizes [OF assms(1)] lookup_sd_size [OF assms(1)] r ne
          lookup_sd_pre [OF assms(1)])
  show "Mapping.lookup (sd_all K hvt p) (SIZE K)
           = (if hvt (SIZE K) (Float (f64_div (f64_mul (f64_div (firstFloat p (PIXEL_SIZE K) (Finite 0))
                  (firstFloat p (DPI K) (Finite 75))) (Finite 72)) (firstFloat p (SCALE K) (Finite 1))))
              then Some [\<lparr>Value = Float (f64_div (f64_mul (f64_div
                  (firstFloat p (PIXEL_SIZE K) (Finite 0))
                  (firstFloat p (DPI K) (Finite 75))) (Finite 72)) (firstFloat p (SCALE K) (Finite 1))),
                  Binding = ValueBindingStrong\<rparr>]
              else None)"
    using assms(2)
    by (simp add: lookup_sd_all_sizes [OF assms(1)] lookup_sd_size [OF assms(1)] r ne)
qed

text \<open>
  The grouping of the source, \<open>size * scale * (dpi / 72)\<close>, is not that of
  \<open>size * scale * dpi / 72\<close>: each operation rounds, and for the size 10 at 75 dots per
  inch the two differ in the last bit.
\<close>

lemma f64_grouping_matters:
  "f64_mul (f64_mul (Finite 10) (Finite 1)) (f64_div (Finite 75) (Finite 72))
     = Finite (2932031007402667 / 281474976710656)
   \<and> f64_div (f64_mul (f64_mul (Finite 10) (Finite 1)) (Finite 75)) (Finite 72)
     = Finite (5864062014805333 / 562949953421312)"
  by code_simp

lemma distinctObjects_exampleDecls: "distinctObjects exampleDecls"
  by (simp add: distinctObjects_def exampleDecls_def)

text \<open>
  C7, as stated, fails: a pixel size can be present without being a float.  For the
  pattern whose only value is the integer 20 as pixel size, the size that
  \<open>SubstituteDefault\<close> stores is 0: the source reads the pixel size with a type
  assertion whose failure it ignores, \<^verbatim>\<open>sizeF, _ := pixelSize[0].Value.(Float)\<close>, and
  computes \<open>0 / 75 * 72 / 1\<close>.  The size of the claim, \<open>pixelSize / dpi * 72 / scale\<close>
  for the pixel size 20, is \<open>20 / 75 * 72 / 1\<close>, which is 19.2.
\<close>

theorem SubstituteDefault_integer_pixel_size_counterexample:
  "Mapping.lookup pixelInt (PIXEL_SIZE exampleDecls)
        = Some [\<lparr>Value = IntVal 20, Binding = ValueBindingStrong\<rparr>]
   \<and> Mapping.lookup pixelInt (DPI exampleDecls) = None
   \<and> Mapping.lookup pixelInt (SCALE exampleDecls) = None
   \<and> SubstituteDefault exampleDecls acceptAll pixelInt = Some pixelIntOnce
   \<and> Mapping.lookup pixelIntOnce (SIZE exampleDecls)
        = Some [\<lparr>Value = Float (Finite 0), Binding = ValueBindingStrong\<rparr>]
   \<and> f64_div (f64_mul (f64_div (Finite 20) (Finite 75)) (Finite 72)) (Finite 1)
        = Finite (5404319552844595 / 281474976710656)"
proof -
  have 1: "Mapping.lookup pixelInt (PIXEL_SIZE exampleDecls)
        = Some [\<lparr>Value = IntVal 20, Binding = ValueBindingStrong\<rparr>]"
    by code_simp
  have 2: "Mapping.lookup pixelInt (DPI exampleDecls) = None"
    by code_simp
  have 3: "Mapping.lookup pixelInt (SCALE exampleDecls) = None"
    by code_simp
  have 4: "SubstituteDefault exampleDecls acceptAll pixelInt = Some pixelIntOnce"
    by (simp add: SubstituteDefault_sd_all pixelIntOnce_def)
  have 5: "Mapping.lookup pixelIntOnce (SIZE exampleDecls)
        = Some [\<lparr>Value = Float (Finite 0), Binding = ValueBindingStrong\<rparr>]"
    by code_simp
  have 6: "f64_div (f64_mul (f64_div (Finite 20) (Finite 75)) (Finite 72)) (Finite 1)
        = Finite (5404319552844595 / 281474976710656)"
    by code_simp
  from 1 2 3 4 5 6 show ?thesis by blast
qed



section \<open>Results: applying the default substitution twice\<close>

lemma firstFloat_cong_lookup:
  "Mapping.lookup q object = Mapping.lookup p object \<Longrightarrow> firstFloat q object d = firstFloat p object d"
  by (simp add: firstFloat_def getVals_def)

lemma getVals_sd_all_PIXEL_SIZE:
  assumes "distinctObjects K" "\<forall>f. hvt (PIXEL_SIZE K) (Float f)"
  shows "getVals (sd_all K hvt p) (PIXEL_SIZE K) \<noteq> []"
proof (cases "getVals p (PIXEL_SIZE K) = []")
  case True
  note ne = distinctObjects_neq [OF assms(1), simplified]
  from True assms(2) show ?thesis
    by (simp add: getVals_def [of "sd_all K hvt p"] lookup_sd_all_sizes [OF assms(1)]
          lookup_sd_size [OF assms(1)] getVals_sd_pre_sizes [OF assms(1)] ne)
next
  case False
  then show ?thesis
    by (simp add: getVals_def [of "sd_all K hvt p"] sd_all_pixel_size(3) [OF assms(1) False])
       (simp add: getVals_def)
qed

lemma sd_all_twice_lookup:
  assumes "distinctObjects K" "\<forall>f. hvt (PIXEL_SIZE K) (Float f)" "object \<noteq> SIZE K"
  shows "Mapping.lookup (sd_all K hvt (sd_all K hvt p)) object = Mapping.lookup (sd_all K hvt p) object"
proof -
  note ne = distinctObjects_neq [OF assms(1), simplified]
  define q where "q = sd_all K hvt p"
  have px: "getVals q (PIXEL_SIZE K) \<noteq> []"
    unfolding q_def using assms(1,2) by (rule getVals_sd_all_PIXEL_SIZE)
  have nl: "Mapping.lookup q (NAMELANG K)
              = filled hvt (NAMELANG K) (String (getDefaultLang K)) (Mapping.lookup p (NAMELANG K))"
    unfolding q_def by (simp add: lookup_sd_all [OF assms(1)] map_of_simpleDefaults ne)
  show ?thesis
  proof (cases "object = FAMILYLANG K \<or> object = STYLELANG K \<or> object = FULLNAMELANG K")
    case True
    have "Mapping.lookup (sd_all K hvt q) object
        = filledLang hvt object
             (firstOf (filled hvt (NAMELANG K) (String (getDefaultLang K)) (Mapping.lookup p (NAMELANG K))))
             (String ''en-us'') (Mapping.lookup q object)"
      using True by (simp only: lookup_sd_all [OF assms(1)] if_True nl filled_idem)
    also have "Mapping.lookup q object
        = filledLang hvt object
             (firstOf (filled hvt (NAMELANG K) (String (getDefaultLang K)) (Mapping.lookup p (NAMELANG K))))
             (String ''en-us'') (Mapping.lookup p object)"
      unfolding q_def using True by (simp only: lookup_sd_all [OF assms(1)] if_True)
    finally show ?thesis
      unfolding q_def [symmetric] \<open>Mapping.lookup q object = _\<close> by (simp only: filledLang_idem)
  next
    case lang: False
    show ?thesis
    proof (cases "object = SCALE K \<or> object = DPI K \<or> object = PIXEL_SIZE K")
      case True
      then show ?thesis
        unfolding q_def [symmetric]
        using sd_all_pixel_size(1-3) [OF assms(1) px, of hvt] by auto
    next
      case False
      with lang assms(3) have "Mapping.lookup (sd_all K hvt r) object =
          (case map_of (simpleDefaults K) object of
              Some v \<Rightarrow> filled hvt object v (Mapping.lookup r object)
            | None \<Rightarrow> Mapping.lookup r object)" for r
        by (simp only: lookup_sd_all [OF assms(1)] if_False simp_thms)
      then show ?thesis
        by (simp add: filled_idem split: option.splits)
    qed
  qed
qed

lemma sd_all_twice_pixel_size:
  assumes "distinctObjects K" "getVals p (PIXEL_SIZE K) \<noteq> []"
  shows "sd_all K hvt (sd_all K hvt p) = sd_all K hvt p"
proof (rule mapping_eqI)
  fix object
  define q where "q = sd_all K hvt p"
  note a = sd_all_pixel_size [OF assms, of hvt, folded q_def]
  have px: "getVals q (PIXEL_SIZE K) \<noteq> []"
    using assms(2) a(3) by (simp add: getVals_def)
  note b = sd_all_pixel_size [OF assms(1) px, of hvt]
  note ne = distinctObjects_neq [OF assms(1), simplified]
  have nl: "Mapping.lookup q (NAMELANG K)
              = filled hvt (NAMELANG K) (String (getDefaultLang K)) (Mapping.lookup p (NAMELANG K))"
    unfolding q_def by (simp add: lookup_sd_all [OF assms(1)] map_of_simpleDefaults ne)
  show "Mapping.lookup (sd_all K hvt (sd_all K hvt p)) object = Mapping.lookup (sd_all K hvt p) object"
  proof (cases "object = SIZE K")
    case True
    have "firstFloat q (PIXEL_SIZE K) (Finite 0) = firstFloat p (PIXEL_SIZE K) (Finite 0)"
      using a(3) by (rule firstFloat_cong_lookup)
    moreover have "firstFloat q (DPI K) (Finite 75) = firstFloat p (DPI K) (Finite 75)"
      using a(2) by (rule firstFloat_cong_lookup)
    moreover have "firstFloat q (SCALE K) (Finite 1) = firstFloat p (SCALE K) (Finite 1)"
      using a(1) by (rule firstFloat_cong_lookup)
    ultimately show ?thesis using True
      unfolding q_def [symmetric] by (simp only: b(4) a(4))
  next
    case size: False
    show ?thesis
    proof (cases "object = FAMILYLANG K \<or> object = STYLELANG K \<or> object = FULLNAMELANG K")
      case True
      have "Mapping.lookup (sd_all K hvt q) object
        = filledLang hvt object
             (firstOf (filled hvt (NAMELANG K) (String (getDefaultLang K)) (Mapping.lookup p (NAMELANG K))))
             (String ''en-us'') (Mapping.lookup q object)"
        using True by (simp only: lookup_sd_all [OF assms(1)] if_True nl filled_idem)
      also have "Mapping.lookup q object
        = filledLang hvt object
             (firstOf (filled hvt (NAMELANG K) (String (getDefaultLang K)) (Mapping.lookup p (NAMELANG K))))
             (String ''en-us'') (Mapping.lookup p object)"
        unfolding q_def using True by (simp only: lookup_sd_all [OF assms(1)] if_True)
      finally show ?thesis
        unfolding q_def [symmetric] \<open>Mapping.lookup q object = _\<close> by (simp only: filledLang_idem)
    next
      case lang: False
      show ?thesis
      proof (cases "object = SCALE K \<or> object = DPI K \<or> object = PIXEL_SIZE K")
        case True
        then show ?thesis
          unfolding q_def [symmetric] using b(1-3) by auto
      next
        case False
        with lang size have "Mapping.lookup (sd_all K hvt r) object =
          (case map_of (simpleDefaults K) object of
              Some v \<Rightarrow> filled hvt object v (Mapping.lookup r object)
            | None \<Rightarrow> Mapping.lookup r object)" for r
          by (simp only: lookup_sd_all [OF assms(1)] if_False simp_thms)
        then show ?thesis
          by (simp add: filled_idem split: option.splits)
      qed
    qed
  qed
qed

text \<open>
  C2, as stated, fails: for the pattern that only asks for the scale 0, the first
  application stores the size 12 and the pixel size 0, and the second application
  computes the size again, from the pixel size: \<open>0 / 75 * 72 / 0\<close>, which is not a number.
\<close>

theorem SubstituteDefault_not_idempotent_counterexample:
  "SubstituteDefault exampleDecls acceptAll scaleZero = Some scaleZeroOnce
   \<and> SubstituteDefault exampleDecls acceptAll scaleZeroOnce = Some scaleZeroTwice
   \<and> Mapping.lookup scaleZeroOnce (SIZE exampleDecls)
        = Some [\<lparr>Value = Float (Finite 12), Binding = ValueBindingStrong\<rparr>]
   \<and> Mapping.lookup scaleZeroTwice (SIZE exampleDecls)
        = Some [\<lparr>Value = Float NaN, Binding = ValueBindingStrong\<rparr>]
   \<and> scaleZeroTwice \<noteq> scaleZeroOnce"
proof -
  have 1: "Mapping.lookup scaleZeroOnce (SIZE exampleDecls)
        = Some [\<lparr>Value = Float (Finite 12), Binding = ValueBindingStrong\<rparr>]"
    by code_simp
  have 2: "Mapping.lookup scaleZeroTwice (SIZE exampleDecls)
        = Some [\<lparr>Value = Float NaN, Binding = ValueBindingStrong\<rparr>]"
    by code_simp
  from 1 2 have "scaleZeroTwice \<noteq> scaleZeroOnce" by auto
  with 1 2 show ?thesis
    by (simp add: SubstituteDefault_sd_all scaleZeroOnce_def scaleZeroTwice_def)
qed

text \<open>
  C2, amended.  Let the objects be pairwise different and let the pixel size object
  accept floats.  Applying \<open>SubstituteDefault\<close> a second time leaves every object other
  than the size as the first application left it; and when the pattern had a pixel size
  to begin with, the second application changes nothing at all.
\<close>

theorem SubstituteDefault_twice:
  assumes "distinctObjects K" and "\<forall>f. hasValidType (PIXEL_SIZE K) (Float f)"
  shows "\<exists>p1 p2. SubstituteDefault K hasValidType p = Some p1
           \<and> SubstituteDefault K hasValidType p1 = Some p2
           \<and> (\<forall>object. object \<noteq> SIZE K \<longrightarrow> Mapping.lookup p2 object = Mapping.lookup p1 object)
           \<and> (getVals p (PIXEL_SIZE K) \<noteq> [] \<longrightarrow> p2 = p1)"
proof (intro exI conjI allI impI)
  show "SubstituteDefault K hasValidType p = Some (sd_all K hasValidType p)"
    by (rule SubstituteDefault_sd_all)
  show "SubstituteDefault K hasValidType (sd_all K hasValidType p)
          = Some (sd_all K hasValidType (sd_all K hasValidType p))"
    by (rule SubstituteDefault_sd_all)
next
  fix object assume "object \<noteq> SIZE K"
  with assms show "Mapping.lookup (sd_all K hasValidType (sd_all K hasValidType p)) object
      = Mapping.lookup (sd_all K hasValidType p) object"
    by (rule sd_all_twice_lookup)
next
  assume "getVals p (PIXEL_SIZE K) \<noteq> []"
  with assms(1) show "sd_all K hasValidType (sd_all K hasValidType p) = sd_all K hasValidType p"
    by (rule sd_all_twice_pixel_size)
qed

theorem SubstituteDefault_twice_witness:
  "distinctObjects exampleDecls \<and> (\<forall>f. acceptAll (PIXEL_SIZE exampleDecls) (Float f))
   \<and> getVals pixelTwenty (PIXEL_SIZE exampleDecls) \<noteq> []
   \<and> (\<exists>p1. SubstituteDefault exampleDecls acceptAll pixelTwenty = Some p1
         \<and> SubstituteDefault exampleDecls acceptAll p1 = Some p1)
   \<and> Mapping.lookup scaleZeroTwice (SCALE exampleDecls)
       = Mapping.lookup scaleZeroOnce (SCALE exampleDecls)"
proof -
  have a: "\<forall>f. acceptAll (PIXEL_SIZE exampleDecls) (Float f)"
    by (simp add: acceptAll_def)
  have u: "getVals pixelTwenty (PIXEL_SIZE exampleDecls) \<noteq> []"
    by (simp add: pixelTwenty_def exampleDecls_def getVals_def lookup_AddFloat NewPattern_def
          acceptAll_def)
  have n: "SCALE exampleDecls \<noteq> SIZE exampleDecls"
    by (simp add: exampleDecls_def)
  from SubstituteDefault_twice [of exampleDecls acceptAll pixelTwenty, OF distinctObjects_exampleDecls a] u
  have 1: "\<exists>p1. SubstituteDefault exampleDecls acceptAll pixelTwenty = Some p1
         \<and> SubstituteDefault exampleDecls acceptAll p1 = Some p1"
    by auto
  from SubstituteDefault_twice [of exampleDecls acceptAll scaleZero, OF distinctObjects_exampleDecls a] n
  have 2: "Mapping.lookup scaleZeroTwice (SCALE exampleDecls)
       = Mapping.lookup scaleZeroOnce (SCALE exampleDecls)"
    by (auto simp: SubstituteDefault_sd_all scaleZeroOnce_def scaleZeroTwice_def)
  from distinctObjects_exampleDecls a u 1 2 show ?thesis by blast
qed

section \<open>Results: shaper dispatch\<close>

text \<open>
  C8, as stated, fails: Thai has a dedicated shaper, and with the chosen tag \<open>DFLT\<close> the
  dispatch still selects it, not the default shaper.
\<close>

theorem categorize_Thai_DFLT_counterexample:
  "fst (chosen_script planThai) = newTag 0x44 0x46 0x4C 0x54
   \<and> hb_ot_shape_complex_categorize planThai = hb_ot_complex_shaper_thai
   \<and> hb_ot_shape_complex_categorize planThai \<noteq> complexShapedDefault"
  by (simp add: hb_ot_shape_complex_categorize_def planThai_def)

text \<open>
  C8, amended.  For the Indic scripts, Myanmar and the scripts of the universal shaper, a
  chosen tag \<open>DFLT\<close> or \<open>latn\<close> selects the default shaper.  Thai, Lao, Hangul, Hebrew,
  Khmer and Zawgyi Myanmar get their dedicated shaper whatever the chosen tag is, and so
  does Arabic in a horizontal direction.  The dispatch is total: it selects exactly one
  shaper variant for every input.
\<close>

theorem categorize_default_fallback:
  "((isIndicScript (script planner) \<or> script planner = Myanmar \<or> isUseScript (script planner))
      \<and> (fst (chosen_script planner) = newTag 0x44 0x46 0x4C 0x54
          \<or> fst (chosen_script planner) = newTag 0x6C 0x61 0x74 0x6E)
     \<longrightarrow> hb_ot_shape_complex_categorize planner = complexShapedDefault)
   \<and> (script planner = Thai \<or> script planner = Lao
     \<longrightarrow> hb_ot_shape_complex_categorize planner = hb_ot_complex_shaper_thai)
   \<and> (script planner = Hangul
     \<longrightarrow> hb_ot_shape_complex_categorize planner = hb_ot_complex_shaper_hangul)
   \<and> (script planner = Hebrew
     \<longrightarrow> hb_ot_shape_complex_categorize planner = hb_ot_complex_shaper_hebrew)
   \<and> (script planner = Khmer
     \<longrightarrow> hb_ot_shape_complex_categorize planner = hb_ot_complex_shaper_khmer)
   \<and> (script planner = scriptMyanmar_Zawgyi
     \<longrightarrow> hb_ot_shape_complex_categorize planner = hb_ot_complex_shaper_myanmar_zawgyi)
   \<and> (script planner = Arabic \<and> isHorizontal (direction planner)
     \<longrightarrow> hb_ot_shape_complex_categorize planner = hb_ot_complex_shaper_arabic)
   \<and> (\<exists>!sh. hb_ot_shape_complex_categorize planner = sh)"
  by (auto simp: hb_ot_shape_complex_categorize_def isIndicScript_def isUseScript_def Let_def)

theorem categorize_default_fallback_witness:
  "script planMyanmar = Myanmar
   \<and> fst (chosen_script planMyanmar) = newTag 0x6C 0x61 0x74 0x6E
   \<and> hb_ot_shape_complex_categorize planMyanmar = complexShapedDefault"
  using categorize_default_fallback [of planMyanmar]
  by (simp add: planMyanmar_def)

section \<open>Results: loading the configuration\<close>

text \<open>
  C9.  When parsing the primary configuration fails, \<open>initLoadOwnConfig\<close> returns what
  \<open>initFallbackConfig\<close> returns: the configuration is not nil, it is the new
  configuration with the built-in text loaded into it, and the error returned is the one
  of loading the built-in text, not the failure of the parse; when the built-in text
  loads, no error is returned at all.
\<close>

theorem initLoadOwnConfig_falls_back:
  assumes "snd (parseConfig api (NewConfig api) '''') \<noteq> None"
  shows "initLoadOwnConfig api = initFallbackConfig api
       \<and> fst (initLoadOwnConfig api) = Some (fst (LoadFromMemory api (NewConfig api) fallback))
       \<and> snd (initLoadOwnConfig api) = snd (LoadFromMemory api (NewConfig api) fallback)
       \<and> (snd (LoadFromMemory api (NewConfig api) fallback) = None \<longrightarrow>
            initLoadOwnConfig api
              = (Some (fst (LoadFromMemory api (NewConfig api) fallback)), None))"
proof -
  obtain config err where p: "parseConfig api (NewConfig api) '''' = (config, err)"
    by (cases "parseConfig api (NewConfig api) ''''")
  with assms have "err \<noteq> None" by simp
  with p have a: "initLoadOwnConfig api = initFallbackConfig api"
    by (simp add: initLoadOwnConfig_def Let_def)
  have b: "initFallbackConfig api
      = (Some (fst (LoadFromMemory api (NewConfig api) fallback)),
         snd (LoadFromMemory api (NewConfig api) fallback))"
    by (simp add: initFallbackConfig_def Let_def split: prod.splits)
  from a b show ?thesis by simp
qed

theorem initLoadOwnConfig_falls_back_witness:
  "snd (parseConfig noFilesApi (NewConfig noFilesApi) '''') \<noteq> None
   \<and> initLoadOwnConfig noFilesApi = (Some [fallback], None)"
proof -
  have h: "snd (parseConfig noFilesApi (NewConfig noFilesApi) '''') \<noteq> None"
    by (simp add: noFilesApi_def)
  have l: "LoadFromMemory noFilesApi (NewConfig noFilesApi) fallback = ([fallback], None)"
    by (simp add: noFilesApi_def)
  from initLoadOwnConfig_falls_back [OF h]
  have "snd (LoadFromMemory noFilesApi (NewConfig noFilesApi) fallback) = None \<longrightarrow>
          initLoadOwnConfig noFilesApi
            = (Some (fst (LoadFromMemory noFilesApi (NewConfig noFilesApi) fallback)), None)"
    by blast
  with l h show ?thesis by simp
qed

end
